theory Spec2Isabelle
  imports Main "HOL-Library.Sublist"
begin

section \<open>JavaScript strings and numbers\<close>

text \<open>
  Strings are byte strings in UTF-8.  The program only concatenates them, tests them for
  emptiness, splits at \<open>:\<close> and replaces the ASCII characters \<open>&\<close>, \<open><\<close>, \<open>>\<close>, so the
  encoding does not matter.  An optional field (\<open>string | undefined\<close>) is a \<open>string option\<close>;
  \<open>truthy\<close> is the test JavaScript makes in \<open>if (s)\<close> and \<open>s ? a : b\<close>.
\<close>

definition truthy :: "string option \<Rightarrow> bool" where
  "truthy s = (case s of None \<Rightarrow> False | Some t \<Rightarrow> t \<noteq> [])"

definition digit_char :: "nat \<Rightarrow> char" where
  "digit_char d = ''0123456789'' ! d"

fun show_nat :: "nat \<Rightarrow> string" where
  "show_nat n = (if n < 10 then [digit_char n] else show_nat (n div 10) @ [digit_char (n mod 10)])"

declare show_nat.simps [simp del]

definition show_int :: "int \<Rightarrow> string" where
  \<comment> \<open>a number that is an integer, in a template string or \<open>toString()\<close>\<close>
  "show_int i = (if i < 0 then CHR ''-'' # show_nat (nat (- i)) else show_nat (nat i))"

definition show_num :: "int option \<Rightarrow> string" where
  \<comment> \<open>the result of \<open>parseInt\<close> in a template string; \<open>None\<close> is \<open>NaN\<close>\<close>
  "show_num x = (case x of None \<Rightarrow> ''NaN'' | Some i \<Rightarrow> show_int i)"

definition startsWith :: "string \<Rightarrow> string \<Rightarrow> bool" where
  "startsWith s p = (take (length p) s = p)"

fun split_colon :: "string \<Rightarrow> string list" where
  "split_colon [] = [[]]"
| "split_colon (c # cs) =
     (if c = CHR '':'' then [] # split_colon cs
      else (case split_colon cs of [] \<Rightarrow> [[c]] | p # ps \<Rightarrow> (c # p) # ps))"

definition nth_opt :: "'a list \<Rightarrow> nat \<Rightarrow> 'a option" where
  \<comment> \<open>\<open>xs[i]\<close>: \<open>undefined\<close> out of range\<close>
  "nth_opt xs i = (if i < length xs then Some (xs ! i) else None)"

definition is_ws :: "char \<Rightarrow> bool" where
  "is_ws c = (c \<in> set [CHR 0x09, CHR 0x0A, CHR 0x0B, CHR 0x0C, CHR 0x0D, CHR 0x20])"

definition digit_val :: "char \<Rightarrow> nat option" where
  "digit_val c =
     (let n = (of_char c :: nat) in
      if 48 \<le> n \<and> n \<le> 57 then Some (n - 48)
      else if 97 \<le> n \<and> n \<le> 102 then Some (n - 87)
      else if 65 \<le> n \<and> n \<le> 70 then Some (n - 55)
      else None)"

definition is_digit :: "nat \<Rightarrow> char \<Rightarrow> bool" where
  "is_digit radix c = (case digit_val c of None \<Rightarrow> False | Some d \<Rightarrow> d < radix)"

definition digits_value :: "nat \<Rightarrow> string \<Rightarrow> nat" where
  "digits_value radix ds = foldl (\<lambda>acc c. acc * radix + the (digit_val c)) 0 ds"

definition parse_digits :: "nat \<Rightarrow> string \<Rightarrow> nat option" where
  "parse_digits radix s =
     (let ds = takeWhile (is_digit radix) s in
      if ds = [] then None else Some (digits_value radix ds))"

definition parseInt :: "string option \<Rightarrow> int option" where
  \<comment> \<open>\<open>parseInt(s)\<close> without a radix, \<open>None\<close> for \<open>NaN\<close>: white space, a sign, the prefix
      \<open>0x\<close>, then the longest run of digits.  The white space skipped is the ASCII one, and
      the result is exact (no rounding to a double).\<close>
  "parseInt x =
     (case x of
        None \<Rightarrow> None
      | Some s \<Rightarrow>
          (let t = dropWhile is_ws s;
               neg = (t \<noteq> [] \<and> hd t = CHR ''-'');
               u = (if t \<noteq> [] \<and> (hd t = CHR ''-'' \<or> hd t = CHR ''+'') then tl t else t);
               hex = (startsWith u ''0x'' \<or> startsWith u ''0X'');
               v = (if hex then parse_digits 16 (drop 2 u) else parse_digits 10 u)
           in (case v of
                 None \<Rightarrow> None
               | Some n \<Rightarrow> Some (if neg then - int n else int n))))"

section \<open>Literal texts of the program\<close>

text \<open>
  The texts the bot sends are Russian; each is given by its bytes, with the source line and
  an English gloss.
\<close>

definition txt_choice_prompt :: string where \<comment> \<open>line 98: the question asking how to publish\<close>
  "txt_choice_prompt = [CHR 0xD0, CHR 0x9A, CHR 0xD0, CHR 0xB0, CHR 0xD0, CHR 0xBA] @ '' '' @
     [CHR 0xD0, CHR 0xB2, CHR 0xD1, CHR 0x8B] @ '' '' @ [CHR 0xD1, CHR 0x85, CHR 0xD0,
     CHR 0xBE, CHR 0xD1, CHR 0x82, CHR 0xD0, CHR 0xB8, CHR 0xD1, CHR 0x82, CHR 0xD0,
     CHR 0xB5] @ '' '' @ [CHR 0xD0, CHR 0xBE, CHR 0xD0, CHR 0xBF, CHR 0xD1, CHR 0x83, CHR 0xD0,
     CHR 0xB1, CHR 0xD0, CHR 0xBB, CHR 0xD0, CHR 0xB8, CHR 0xD0, CHR 0xBA, CHR 0xD0, CHR 0xBE,
     CHR 0xD0, CHR 0xB2, CHR 0xD0, CHR 0xB0, CHR 0xD1, CHR 0x82, CHR 0xD1, CHR 0x8C] @ '' '' @
     [CHR 0xD1, CHR 0x81, CHR 0xD0, CHR 0xBE, CHR 0xD0, CHR 0xBE, CHR 0xD0, CHR 0xB1, CHR 0xD1,
     CHR 0x89, CHR 0xD0, CHR 0xB5, CHR 0xD0, CHR 0xBD, CHR 0xD0, CHR 0xB8, CHR 0xD0,
     CHR 0xB5] @ ''?''"

definition txt_choice_not_found :: string where \<comment> \<open>line 138: message not found or waiting time expired\<close>
  "txt_choice_not_found = [CHR 0xD0, CHR 0xA1, CHR 0xD0, CHR 0xBE, CHR 0xD0, CHR 0xBE,
     CHR 0xD0, CHR 0xB1, CHR 0xD1, CHR 0x89, CHR 0xD0, CHR 0xB5, CHR 0xD0, CHR 0xBD, CHR 0xD0,
     CHR 0xB8, CHR 0xD0, CHR 0xB5] @ '' '' @ [CHR 0xD0, CHR 0xBD, CHR 0xD0, CHR 0xB5] @ '' '' @
     [CHR 0xD0, CHR 0xBD, CHR 0xD0, CHR 0xB0, CHR 0xD0, CHR 0xB9, CHR 0xD0, CHR 0xB4, CHR 0xD0,
     CHR 0xB5, CHR 0xD0, CHR 0xBD, CHR 0xD0, CHR 0xBE] @ '' '' @ [CHR 0xD0, CHR 0xB8, CHR 0xD0,
     CHR 0xBB, CHR 0xD0, CHR 0xB8] @ '' '' @ [CHR 0xD0, CHR 0xB2, CHR 0xD1, CHR 0x80, CHR 0xD0,
     CHR 0xB5, CHR 0xD0, CHR 0xBC, CHR 0xD1, CHR 0x8F] @ '' '' @ [CHR 0xD0, CHR 0xBE, CHR 0xD0,
     CHR 0xB6, CHR 0xD0, CHR 0xB8, CHR 0xD0, CHR 0xB4, CHR 0xD0, CHR 0xB0, CHR 0xD0, CHR 0xBD,
     CHR 0xD0, CHR 0xB8, CHR 0xD1, CHR 0x8F] @ '' '' @ [CHR 0xD0, CHR 0xB8, CHR 0xD1, CHR 0x81,
     CHR 0xD1, CHR 0x82, CHR 0xD0, CHR 0xB5, CHR 0xD0, CHR 0xBA, CHR 0xD0, CHR 0xBB, CHR 0xD0,
     CHR 0xBE] @ ''.''"

definition txt_cancelled :: string where \<comment> \<open>line 145: sending cancelled\<close>
  "txt_cancelled = [CHR 0xE2, CHR 0x9D, CHR 0x8C] @ '' '' @ [CHR 0xD0, CHR 0x9E, CHR 0xD1,
     CHR 0x82, CHR 0xD0, CHR 0xBF, CHR 0xD1, CHR 0x80, CHR 0xD0, CHR 0xB0, CHR 0xD0, CHR 0xB2,
     CHR 0xD0, CHR 0xBA, CHR 0xD0, CHR 0xB0] @ '' '' @ [CHR 0xD0, CHR 0xBE, CHR 0xD1, CHR 0x82,
     CHR 0xD0, CHR 0xBC, CHR 0xD0, CHR 0xB5, CHR 0xD0, CHR 0xBD, CHR 0xD0, CHR 0xB5, CHR 0xD0,
     CHR 0xBD, CHR 0xD0, CHR 0xB0] @ ''.''"

definition txt_sent_with_name :: string where \<comment> \<open>line 171: sent to the administrator, will be published with your name\<close>
  "txt_sent_with_name = [CHR 0xE2, CHR 0x9C, CHR 0x85] @ '' '' @ [CHR 0xD0, CHR 0xA1, CHR 0xD0,
     CHR 0xBE, CHR 0xD0, CHR 0xBE, CHR 0xD0, CHR 0xB1, CHR 0xD1, CHR 0x89, CHR 0xD0, CHR 0xB5,
     CHR 0xD0, CHR 0xBD, CHR 0xD0, CHR 0xB8, CHR 0xD0, CHR 0xB5] @ '' '' @ [CHR 0xD0, CHR 0xBE,
     CHR 0xD1, CHR 0x82, CHR 0xD0, CHR 0xBF, CHR 0xD1, CHR 0x80, CHR 0xD0, CHR 0xB0, CHR 0xD0,
     CHR 0xB2, CHR 0xD0, CHR 0xBB, CHR 0xD0, CHR 0xB5, CHR 0xD0, CHR 0xBD, CHR 0xD0,
     CHR 0xBE] @ '' '' @ [CHR 0xD0, CHR 0xB0, CHR 0xD0, CHR 0xB4, CHR 0xD0, CHR 0xBC, CHR 0xD0,
     CHR 0xB8, CHR 0xD0, CHR 0xBD, CHR 0xD0, CHR 0xB8, CHR 0xD1, CHR 0x81, CHR 0xD1, CHR 0x82,
     CHR 0xD1, CHR 0x80, CHR 0xD0, CHR 0xB0, CHR 0xD1, CHR 0x82, CHR 0xD0, CHR 0xBE, CHR 0xD1,
     CHR 0x80, CHR 0xD1, CHR 0x83] @ '' '' @ [CHR 0xD0, CHR 0xBD, CHR 0xD0, CHR 0xB0] @ '' '' @
     [CHR 0xD1, CHR 0x80, CHR 0xD0, CHR 0xB0, CHR 0xD1, CHR 0x81, CHR 0xD1, CHR 0x81, CHR 0xD0,
     CHR 0xBC, CHR 0xD0, CHR 0xBE, CHR 0xD1, CHR 0x82, CHR 0xD1, CHR 0x80, CHR 0xD0, CHR 0xB5,
     CHR 0xD0, CHR 0xBD, CHR 0xD0, CHR 0xB8, CHR 0xD0, CHR 0xB5] @ '' ('' @ [CHR 0xD0,
     CHR 0xB1, CHR 0xD1, CHR 0x83, CHR 0xD0, CHR 0xB4, CHR 0xD0, CHR 0xB5, CHR 0xD1,
     CHR 0x82] @ '' '' @ [CHR 0xD0, CHR 0xBE, CHR 0xD0, CHR 0xBF, CHR 0xD1, CHR 0x83, CHR 0xD0,
     CHR 0xB1, CHR 0xD0, CHR 0xBB, CHR 0xD0, CHR 0xB8, CHR 0xD0, CHR 0xBA, CHR 0xD0, CHR 0xBE,
     CHR 0xD0, CHR 0xB2, CHR 0xD0, CHR 0xB0, CHR 0xD0, CHR 0xBD, CHR 0xD0, CHR 0xBE] @ '' '' @
     [CHR 0xD1, CHR 0x81] @ '' '' @ [CHR 0xD0, CHR 0xB2, CHR 0xD0, CHR 0xB0, CHR 0xD1,
     CHR 0x88, CHR 0xD0, CHR 0xB8, CHR 0xD0, CHR 0xBC] @ '' '' @ [CHR 0xD0, CHR 0xB8, CHR 0xD0,
     CHR 0xBC, CHR 0xD0, CHR 0xB5, CHR 0xD0, CHR 0xBD, CHR 0xD0, CHR 0xB5, CHR 0xD0,
     CHR 0xBC] @ '')!''"

definition txt_sent_anonymous :: string where \<comment> \<open>line 172: sent to the administrator, will be published anonymously\<close>
  "txt_sent_anonymous = [CHR 0xE2, CHR 0x9C, CHR 0x85] @ '' '' @ [CHR 0xD0, CHR 0xA1, CHR 0xD0,
     CHR 0xBE, CHR 0xD0, CHR 0xBE, CHR 0xD0, CHR 0xB1, CHR 0xD1, CHR 0x89, CHR 0xD0, CHR 0xB5,
     CHR 0xD0, CHR 0xBD, CHR 0xD0, CHR 0xB8, CHR 0xD0, CHR 0xB5] @ '' '' @ [CHR 0xD0, CHR 0xBE,
     CHR 0xD1, CHR 0x82, CHR 0xD0, CHR 0xBF, CHR 0xD1, CHR 0x80, CHR 0xD0, CHR 0xB0, CHR 0xD0,
     CHR 0xB2, CHR 0xD0, CHR 0xBB, CHR 0xD0, CHR 0xB5, CHR 0xD0, CHR 0xBD, CHR 0xD0,
     CHR 0xBE] @ '' '' @ [CHR 0xD0, CHR 0xB0, CHR 0xD0, CHR 0xB4, CHR 0xD0, CHR 0xBC, CHR 0xD0,
     CHR 0xB8, CHR 0xD0, CHR 0xBD, CHR 0xD0, CHR 0xB8, CHR 0xD1, CHR 0x81, CHR 0xD1, CHR 0x82,
     CHR 0xD1, CHR 0x80, CHR 0xD0, CHR 0xB0, CHR 0xD1, CHR 0x82, CHR 0xD0, CHR 0xBE, CHR 0xD1,
     CHR 0x80, CHR 0xD1, CHR 0x83] @ '' '' @ [CHR 0xD0, CHR 0xBD, CHR 0xD0, CHR 0xB0] @ '' '' @
     [CHR 0xD1, CHR 0x80, CHR 0xD0, CHR 0xB0, CHR 0xD1, CHR 0x81, CHR 0xD1, CHR 0x81, CHR 0xD0,
     CHR 0xBC, CHR 0xD0, CHR 0xBE, CHR 0xD1, CHR 0x82, CHR 0xD1, CHR 0x80, CHR 0xD0, CHR 0xB5,
     CHR 0xD0, CHR 0xBD, CHR 0xD0, CHR 0xB8, CHR 0xD0, CHR 0xB5] @ '' ('' @ [CHR 0xD0,
     CHR 0xB1, CHR 0xD1, CHR 0x83, CHR 0xD0, CHR 0xB4, CHR 0xD0, CHR 0xB5, CHR 0xD1,
     CHR 0x82] @ '' '' @ [CHR 0xD0, CHR 0xBE, CHR 0xD0, CHR 0xBF, CHR 0xD1, CHR 0x83, CHR 0xD0,
     CHR 0xB1, CHR 0xD0, CHR 0xBB, CHR 0xD0, CHR 0xB8, CHR 0xD0, CHR 0xBA, CHR 0xD0, CHR 0xBE,
     CHR 0xD0, CHR 0xB2, CHR 0xD0, CHR 0xB0, CHR 0xD0, CHR 0xBD, CHR 0xD0, CHR 0xBE] @ '' '' @
     [CHR 0xD0, CHR 0xB0, CHR 0xD0, CHR 0xBD, CHR 0xD0, CHR 0xBE, CHR 0xD0, CHR 0xBD, CHR 0xD0,
     CHR 0xB8, CHR 0xD0, CHR 0xBC, CHR 0xD0, CHR 0xBD, CHR 0xD0, CHR 0xBE] @ '')!''"

definition txt_error :: string where \<comment> \<open>lines 185 and 235: an error occurred\<close>
  "txt_error = [CHR 0xD0, CHR 0x9F, CHR 0xD1, CHR 0x80, CHR 0xD0, CHR 0xBE, CHR 0xD0, CHR 0xB8,
     CHR 0xD0, CHR 0xB7, CHR 0xD0, CHR 0xBE, CHR 0xD1, CHR 0x88, CHR 0xD0, CHR 0xBB, CHR 0xD0,
     CHR 0xB0] @ '' '' @ [CHR 0xD0, CHR 0xBE, CHR 0xD1, CHR 0x88, CHR 0xD0, CHR 0xB8, CHR 0xD0,
     CHR 0xB1, CHR 0xD0, CHR 0xBA, CHR 0xD0, CHR 0xB0] @ ''.''"

definition txt_no_rights :: string where \<comment> \<open>line 203: you have no rights for this action\<close>
  "txt_no_rights = [CHR 0xD0, CHR 0xA3] @ '' '' @ [CHR 0xD0, CHR 0xB2, CHR 0xD0, CHR 0xB0,
     CHR 0xD1, CHR 0x81] @ '' '' @ [CHR 0xD0, CHR 0xBD, CHR 0xD0, CHR 0xB5, CHR 0xD1,
     CHR 0x82] @ '' '' @ [CHR 0xD0, CHR 0xBF, CHR 0xD1, CHR 0x80, CHR 0xD0, CHR 0xB0, CHR 0xD0,
     CHR 0xB2] @ '' '' @ [CHR 0xD0, CHR 0xB4, CHR 0xD0, CHR 0xBB, CHR 0xD1, CHR 0x8F] @ '' '' @
     [CHR 0xD1, CHR 0x8D, CHR 0xD1, CHR 0x82, CHR 0xD0, CHR 0xBE, CHR 0xD0, CHR 0xB3, CHR 0xD0,
     CHR 0xBE] @ '' '' @ [CHR 0xD0, CHR 0xB4, CHR 0xD0, CHR 0xB5, CHR 0xD0, CHR 0xB9, CHR 0xD1,
     CHR 0x81, CHR 0xD1, CHR 0x82, CHR 0xD0, CHR 0xB2, CHR 0xD0, CHR 0xB8, CHR 0xD1,
     CHR 0x8F] @ ''.''"

definition txt_unknown_action :: string where \<comment> \<open>line 219: unknown action\<close>
  "txt_unknown_action = [CHR 0xD0, CHR 0x9D, CHR 0xD0, CHR 0xB5, CHR 0xD0, CHR 0xB8, CHR 0xD0,
     CHR 0xB7, CHR 0xD0, CHR 0xB2, CHR 0xD0, CHR 0xB5, CHR 0xD1, CHR 0x81, CHR 0xD1, CHR 0x82,
     CHR 0xD0, CHR 0xBD, CHR 0xD0, CHR 0xBE, CHR 0xD0, CHR 0xB5] @ '' '' @ [CHR 0xD0, CHR 0xB4,
     CHR 0xD0, CHR 0xB5, CHR 0xD0, CHR 0xB9, CHR 0xD1, CHR 0x81, CHR 0xD1, CHR 0x82, CHR 0xD0,
     CHR 0xB2, CHR 0xD0, CHR 0xB8, CHR 0xD0, CHR 0xB5] @ ''.''"

definition txt_queue_empty :: string where \<comment> \<open>line 288: the message queue is empty\<close>
  "txt_queue_empty = [CHR 0xD0, CHR 0x9E, CHR 0xD1, CHR 0x87, CHR 0xD0, CHR 0xB5, CHR 0xD1,
     CHR 0x80, CHR 0xD0, CHR 0xB5, CHR 0xD0, CHR 0xB4, CHR 0xD1, CHR 0x8C] @ '' '' @ [CHR 0xD1,
     CHR 0x81, CHR 0xD0, CHR 0xBE, CHR 0xD0, CHR 0xBE, CHR 0xD0, CHR 0xB1, CHR 0xD1, CHR 0x89,
     CHR 0xD0, CHR 0xB5, CHR 0xD0, CHR 0xBD, CHR 0xD0, CHR 0xB8, CHR 0xD0, CHR 0xB9] @ '' '' @
     [CHR 0xD0, CHR 0xBF, CHR 0xD1, CHR 0x83, CHR 0xD1, CHR 0x81, CHR 0xD1, CHR 0x82, CHR 0xD0,
     CHR 0xB0] @ ''.''"

definition txt_message_not_found :: string where \<comment> \<open>lines 377 and 403: message not found\<close>
  "txt_message_not_found = [CHR 0xD0, CHR 0xA1, CHR 0xD0, CHR 0xBE, CHR 0xD0, CHR 0xBE,
     CHR 0xD0, CHR 0xB1, CHR 0xD1, CHR 0x89, CHR 0xD0, CHR 0xB5, CHR 0xD0, CHR 0xBD, CHR 0xD0,
     CHR 0xB8, CHR 0xD0, CHR 0xB5] @ '' '' @ [CHR 0xD0, CHR 0xBD, CHR 0xD0, CHR 0xB5] @ '' '' @
     [CHR 0xD0, CHR 0xBD, CHR 0xD0, CHR 0xB0, CHR 0xD0, CHR 0xB9, CHR 0xD0, CHR 0xB4, CHR 0xD0,
     CHR 0xB5, CHR 0xD0, CHR 0xBD, CHR 0xD0, CHR 0xBE] @ ''.''"

definition txt_approved :: string where \<comment> \<open>line 387: your message was approved and published\<close>
  "txt_approved = [CHR 0xE2, CHR 0x9C, CHR 0x85] @ '' '' @ [CHR 0xD0, CHR 0x92, CHR 0xD0,
     CHR 0xB0, CHR 0xD1, CHR 0x88, CHR 0xD0, CHR 0xB5] @ '' '' @ [CHR 0xD1, CHR 0x81, CHR 0xD0,
     CHR 0xBE, CHR 0xD0, CHR 0xBE, CHR 0xD0, CHR 0xB1, CHR 0xD1, CHR 0x89, CHR 0xD0, CHR 0xB5,
     CHR 0xD0, CHR 0xBD, CHR 0xD0, CHR 0xB8, CHR 0xD0, CHR 0xB5] @ '' '' @ [CHR 0xD0, CHR 0xB1,
     CHR 0xD1, CHR 0x8B, CHR 0xD0, CHR 0xBB, CHR 0xD0, CHR 0xBE] @ '' '' @ [CHR 0xD0, CHR 0xBE,
     CHR 0xD0, CHR 0xB4, CHR 0xD0, CHR 0xBE, CHR 0xD0, CHR 0xB1, CHR 0xD1, CHR 0x80, CHR 0xD0,
     CHR 0xB5, CHR 0xD0, CHR 0xBD, CHR 0xD0, CHR 0xBE] @ '' '' @ [CHR 0xD0, CHR 0xB8] @ '' '' @
     [CHR 0xD0, CHR 0xBE, CHR 0xD0, CHR 0xBF, CHR 0xD1, CHR 0x83, CHR 0xD0, CHR 0xB1, CHR 0xD0,
     CHR 0xBB, CHR 0xD0, CHR 0xB8, CHR 0xD0, CHR 0xBA, CHR 0xD0, CHR 0xBE, CHR 0xD0, CHR 0xB2,
     CHR 0xD0, CHR 0xB0, CHR 0xD0, CHR 0xBD, CHR 0xD0, CHR 0xBE] @ ''!''"

definition txt_approved_with_name :: string where \<comment> \<open>line 388: (with your name)\<close>
  "txt_approved_with_name = '' ('' @ [CHR 0xD1, CHR 0x81] @ '' '' @ [CHR 0xD0, CHR 0xB2,
     CHR 0xD0, CHR 0xB0, CHR 0xD1, CHR 0x88, CHR 0xD0, CHR 0xB8, CHR 0xD0, CHR 0xBC] @ '' '' @
     [CHR 0xD0, CHR 0xB8, CHR 0xD0, CHR 0xBC, CHR 0xD0, CHR 0xB5, CHR 0xD0, CHR 0xBD, CHR 0xD0,
     CHR 0xB5, CHR 0xD0, CHR 0xBC] @ '')''"

definition txt_approved_anonymous :: string where \<comment> \<open>line 388: (anonymously)\<close>
  "txt_approved_anonymous = '' ('' @ [CHR 0xD0, CHR 0xB0, CHR 0xD0, CHR 0xBD, CHR 0xD0,
     CHR 0xBE, CHR 0xD0, CHR 0xBD, CHR 0xD0, CHR 0xB8, CHR 0xD0, CHR 0xBC, CHR 0xD0, CHR 0xBD,
     CHR 0xD0, CHR 0xBE] @ '')''"

definition txt_rejected :: string where \<comment> \<open>line 408: your message was rejected\<close>
  "txt_rejected = [CHR 0xE2, CHR 0x9D, CHR 0x8C] @ '' '' @ [CHR 0xD0, CHR 0x92, CHR 0xD0,
     CHR 0xB0, CHR 0xD1, CHR 0x88, CHR 0xD0, CHR 0xB5] @ '' '' @ [CHR 0xD1, CHR 0x81, CHR 0xD0,
     CHR 0xBE, CHR 0xD0, CHR 0xBE, CHR 0xD0, CHR 0xB1, CHR 0xD1, CHR 0x89, CHR 0xD0, CHR 0xB5,
     CHR 0xD0, CHR 0xBD, CHR 0xD0, CHR 0xB8, CHR 0xD0, CHR 0xB5] @ '' '' @ [CHR 0xD0, CHR 0xB1,
     CHR 0xD1, CHR 0x8B, CHR 0xD0, CHR 0xBB, CHR 0xD0, CHR 0xBE] @ '' '' @ [CHR 0xD0, CHR 0xBE,
     CHR 0xD1, CHR 0x82, CHR 0xD0, CHR 0xBA, CHR 0xD0, CHR 0xBB, CHR 0xD0, CHR 0xBE, CHR 0xD0,
     CHR 0xBD, CHR 0xD0, CHR 0xB5, CHR 0xD0, CHR 0xBD, CHR 0xD0, CHR 0xBE] @ ''.''"

definition txt_all_done :: string where \<comment> \<open>line 427: all messages are processed\<close>
  "txt_all_done = [CHR 0xE2, CHR 0x9C, CHR 0x85] @ '' '' @ [CHR 0xD0, CHR 0x92, CHR 0xD1,
     CHR 0x81, CHR 0xD0, CHR 0xB5] @ '' '' @ [CHR 0xD1, CHR 0x81, CHR 0xD0, CHR 0xBE, CHR 0xD0,
     CHR 0xBE, CHR 0xD0, CHR 0xB1, CHR 0xD1, CHR 0x89, CHR 0xD0, CHR 0xB5, CHR 0xD0, CHR 0xBD,
     CHR 0xD0, CHR 0xB8, CHR 0xD1, CHR 0x8F] @ '' '' @ [CHR 0xD0, CHR 0xBE, CHR 0xD0, CHR 0xB1,
     CHR 0xD1, CHR 0x80, CHR 0xD0, CHR 0xB0, CHR 0xD0, CHR 0xB1, CHR 0xD0, CHR 0xBE, CHR 0xD1,
     CHR 0x82, CHR 0xD0, CHR 0xB0, CHR 0xD0, CHR 0xBD, CHR 0xD1, CHR 0x8B] @ ''!''"

definition txt_greeting_prefix :: string where \<comment> \<open>line 66: greeting before the first name\<close>
  "txt_greeting_prefix = [CHR 0xD0, CHR 0x9F, CHR 0xD1, CHR 0x80, CHR 0xD0, CHR 0xB8, CHR 0xD0,
     CHR 0xB2, CHR 0xD0, CHR 0xB5, CHR 0xD1, CHR 0x82] @ '', ''"

definition txt_greeting_suffix :: string where \<comment> \<open>line 66: greeting after the first name\<close>
  "txt_greeting_suffix = ''! '' @ [CHR 0xD0, CHR 0x9E, CHR 0xD1, CHR 0x82, CHR 0xD0, CHR 0xBF,
     CHR 0xD1, CHR 0x80, CHR 0xD0, CHR 0xB0, CHR 0xD0, CHR 0xB2, CHR 0xD1, CHR 0x8C] @ '' '' @
     [CHR 0xD0, CHR 0xBC, CHR 0xD0, CHR 0xBD, CHR 0xD0, CHR 0xB5] @ '' '' @ [CHR 0xD1,
     CHR 0x81, CHR 0xD0, CHR 0xBE, CHR 0xD0, CHR 0xBE, CHR 0xD0, CHR 0xB1, CHR 0xD1, CHR 0x89,
     CHR 0xD0, CHR 0xB5, CHR 0xD0, CHR 0xBD, CHR 0xD0, CHR 0xB8, CHR 0xD0, CHR 0xB5] @ '', '' @
     [CHR 0xD0, CHR 0xB8] @ '' '' @ [CHR 0xD1, CHR 0x8F] @ '' '' @ [CHR 0xD0, CHR 0xBF,
     CHR 0xD0, CHR 0xB5, CHR 0xD1, CHR 0x80, CHR 0xD0, CHR 0xB5, CHR 0xD1, CHR 0x88, CHR 0xD0,
     CHR 0xBB, CHR 0xD1, CHR 0x8E] @ '' '' @ [CHR 0xD0, CHR 0xB5, CHR 0xD0, CHR 0xB3, CHR 0xD0,
     CHR 0xBE] @ '' '' @ [CHR 0xD0, CHR 0xB0, CHR 0xD0, CHR 0xB4, CHR 0xD0, CHR 0xBC, CHR 0xD0,
     CHR 0xB8, CHR 0xD0, CHR 0xBD, CHR 0xD0, CHR 0xB8, CHR 0xD1, CHR 0x81, CHR 0xD1, CHR 0x82,
     CHR 0xD1, CHR 0x80, CHR 0xD0, CHR 0xB0, CHR 0xD1, CHR 0x82, CHR 0xD0, CHR 0xBE, CHR 0xD1,
     CHR 0x80, CHR 0xD1, CHR 0x83] @ '' '' @ [CHR 0xD0, CHR 0xBD, CHR 0xD0, CHR 0xB0] @ '' '' @
     [CHR 0xD1, CHR 0x80, CHR 0xD0, CHR 0xB0, CHR 0xD1, CHR 0x81, CHR 0xD1, CHR 0x81, CHR 0xD0,
     CHR 0xBC, CHR 0xD0, CHR 0xBE, CHR 0xD1, CHR 0x82, CHR 0xD1, CHR 0x80, CHR 0xD0, CHR 0xB5,
     CHR 0xD0, CHR 0xBD, CHR 0xD0, CHR 0xB8, CHR 0xD0, CHR 0xB5] @ ''.''"

definition cap_header :: string where \<comment> \<open>line 346\<close>
  "cap_header = ''<b>'' @ [CHR 0xF0, CHR 0x9F, CHR 0x93, CHR 0xA8] @ '' '' @ [CHR 0xD0,
     CHR 0x9D, CHR 0xD0, CHR 0xBE, CHR 0xD0, CHR 0xB2, CHR 0xD0, CHR 0xBE, CHR 0xD0,
     CHR 0xB5] @ '' '' @ [CHR 0xD1, CHR 0x81, CHR 0xD0, CHR 0xBE, CHR 0xD0, CHR 0xBE, CHR 0xD0,
     CHR 0xB1, CHR 0xD1, CHR 0x89, CHR 0xD0, CHR 0xB5, CHR 0xD0, CHR 0xBD, CHR 0xD0, CHR 0xB8,
     CHR 0xD0, CHR 0xB5] @ '' '' @ [CHR 0xD0, CHR 0xBE, CHR 0xD1, CHR 0x82] @ '' '' @
     [CHR 0xD0, CHR 0xBF, CHR 0xD0, CHR 0xBE, CHR 0xD0, CHR 0xBB, CHR 0xD1, CHR 0x8C, CHR 0xD0,
     CHR 0xB7, CHR 0xD0, CHR 0xBE, CHR 0xD0, CHR 0xB2, CHR 0xD0, CHR 0xB0, CHR 0xD1, CHR 0x82,
     CHR 0xD0, CHR 0xB5, CHR 0xD0, CHR 0xBB, CHR 0xD1, CHR 0x8F] @ '':</b>'' @ [CHR 0x0A,
     CHR 0x0A]"

definition cap_name :: string where \<comment> \<open>line 347\<close>
  "cap_name = ''<b>'' @ [CHR 0xF0, CHR 0x9F, CHR 0x91, CHR 0xA4] @ '' '' @ [CHR 0xD0, CHR 0x98,
     CHR 0xD0, CHR 0xBC, CHR 0xD1, CHR 0x8F] @ '':</b> ''"

definition cap_username :: string where \<comment> \<open>line 349\<close>
  "cap_username = ''<b>'' @ [CHR 0xF0, CHR 0x9F, CHR 0x93, CHR 0xB1] @ '' Username:</b> @''"

definition cap_id :: string where \<comment> \<open>line 351\<close>
  "cap_id = ''<b>'' @ [CHR 0xF0, CHR 0x9F, CHR 0x86, CHR 0x94] @ '' ID:</b> ''"

definition cap_publish_type :: string where \<comment> \<open>line 352\<close>
  "cap_publish_type = ''<b>'' @ [CHR 0xF0, CHR 0x9F, CHR 0x93, CHR 0xA2] @ '' '' @ [CHR 0xD0,
     CHR 0xA2, CHR 0xD0, CHR 0xB8, CHR 0xD0, CHR 0xBF] @ '' '' @ [CHR 0xD0, CHR 0xBF, CHR 0xD1,
     CHR 0x83, CHR 0xD0, CHR 0xB1, CHR 0xD0, CHR 0xBB, CHR 0xD0, CHR 0xB8, CHR 0xD0, CHR 0xBA,
     CHR 0xD0, CHR 0xB0, CHR 0xD1, CHR 0x86, CHR 0xD0, CHR 0xB8, CHR 0xD0, CHR 0xB8] @
     '':</b> ''"

definition cap_with_author :: string where \<comment> \<open>line 352: with the author name\<close>
  "cap_with_author = [CHR 0xD0, CHR 0xA1] @ '' '' @ [CHR 0xD0, CHR 0xB8, CHR 0xD0, CHR 0xBC,
     CHR 0xD0, CHR 0xB5, CHR 0xD0, CHR 0xBD, CHR 0xD0, CHR 0xB5, CHR 0xD0, CHR 0xBC] @ '' '' @
     [CHR 0xD0, CHR 0xB0, CHR 0xD0, CHR 0xB2, CHR 0xD1, CHR 0x82, CHR 0xD0, CHR 0xBE, CHR 0xD1,
     CHR 0x80, CHR 0xD0, CHR 0xB0]"

definition cap_anonymous :: string where \<comment> \<open>line 352: anonymously\<close>
  "cap_anonymous = [CHR 0xD0, CHR 0x90, CHR 0xD0, CHR 0xBD, CHR 0xD0, CHR 0xBE, CHR 0xD0,
     CHR 0xBD, CHR 0xD0, CHR 0xB8, CHR 0xD0, CHR 0xBC, CHR 0xD0, CHR 0xBD, CHR 0xD0, CHR 0xBE]"

definition cap_text :: string where \<comment> \<open>line 355\<close>
  "cap_text = ''<b>'' @ [CHR 0xF0, CHR 0x9F, CHR 0x93, CHR 0x9D] @ '' '' @ [CHR 0xD0, CHR 0xA2,
     CHR 0xD0, CHR 0xB5, CHR 0xD0, CHR 0xBA, CHR 0xD1, CHR 0x81, CHR 0xD1, CHR 0x82] @ '' '' @
     [CHR 0xD1, CHR 0x81, CHR 0xD0, CHR 0xBE, CHR 0xD0, CHR 0xBE, CHR 0xD0, CHR 0xB1, CHR 0xD1,
     CHR 0x89, CHR 0xD0, CHR 0xB5, CHR 0xD0, CHR 0xBD, CHR 0xD0, CHR 0xB8, CHR 0xD1,
     CHR 0x8F] @ '':</b>'' @ [CHR 0x0A]"

definition cap_caption :: string where \<comment> \<open>line 357\<close>
  "cap_caption = ''<b>'' @ [CHR 0xF0, CHR 0x9F, CHR 0x93, CHR 0x9D] @ '' '' @ [CHR 0xD0,
     CHR 0x9F, CHR 0xD0, CHR 0xBE, CHR 0xD0, CHR 0xB4, CHR 0xD0, CHR 0xBF, CHR 0xD0, CHR 0xB8,
     CHR 0xD1, CHR 0x81, CHR 0xD1, CHR 0x8C] @ '':</b>'' @ [CHR 0x0A]"

definition cap_time :: string where \<comment> \<open>line 360\<close>
  "cap_time = ''<b>'' @ [CHR 0xE2, CHR 0x8F, CHR 0xB0] @ '' '' @ [CHR 0xD0, CHR 0x92, CHR 0xD1,
     CHR 0x80, CHR 0xD0, CHR 0xB5, CHR 0xD0, CHR 0xBC, CHR 0xD1, CHR 0x8F] @ '':</b> ''"

definition sig_prefix :: string where \<comment> \<open>line 442\<close>
  "sig_prefix = [CHR 0x0A, CHR 0x0A] @ ''<a href='' @ [CHR 0x22] @ ''https://t.me/''"

definition sig_label :: string where \<comment> \<open>line 442: the name of the link, "suggestion box"\<close>
  "sig_label = [CHR 0xD0, CHR 0x9F, CHR 0xD1, CHR 0x80, CHR 0xD0, CHR 0xB5, CHR 0xD0, CHR 0xB4,
     CHR 0xD0, CHR 0xBB, CHR 0xD0, CHR 0xBE, CHR 0xD0, CHR 0xB6, CHR 0xD0, CHR 0xBA, CHR 0xD0,
     CHR 0xB0]"

definition sig_suffix :: string where \<comment> \<open>line 442\<close>
  "sig_suffix = [CHR 0x22] @ ''>'' @ sig_label @ ''</a>''"

definition author_prefix :: string where \<comment> \<open>line 451: the attribution label, "From: "\<close>
  "author_prefix = [CHR 0xD0, CHR 0x9E, CHR 0xD1, CHR 0x82] @ '': ''"

section \<open>Data model (\<open>types.ts\<close>)\<close>

datatype mediaType = Photo | Video | Document | Audio

record mediaData =
  fileId :: string
  mtype :: mediaType
  caption :: "string option"

datatype publish_type = With_name | Anonymous | Pending

record PendingMessage =
  userId :: int
  userName :: string
  username :: "string option"
  messageId :: int
  chatId :: int
  msgText :: "string option"
  contentType :: string
  media :: "mediaData option"
  timestamp :: int
  publishType :: publish_type
  choiceMessageId :: "int option"

record BotState =
  currentMessageIndex :: nat
  pendingMessages :: "string \<rightharpoonup> PendingMessage"
  messageQueue :: "PendingMessage list"

definition initialState :: BotState where
  \<comment> \<open>the constructor, lines 30 to 34\<close>
  "initialState = \<lparr> currentMessageIndex = 0, pendingMessages = Map.empty, messageQueue = [] \<rparr>"

text \<open>The environment variables and the library function the program reads.\<close>

record config =
  botUsername :: string
  adminId :: "int option"  \<comment> \<open>\<open>parseInt(process.env.ADMIN_ID)\<close>, \<open>None\<close> for \<open>NaN\<close>\<close>
  channelId :: "string option"  \<comment> \<open>\<open>process.env.CHANNEL_ID\<close>\<close>
  toLocaleString :: "int \<Rightarrow> string"  \<comment> \<open>\<open>new Date(t).toLocaleString('ru-RU')\<close>\<close>

section \<open>What comes in: updates of the messaging transport\<close>

record tg_user =
  from_id :: int
  from_first_name :: string
  from_username :: "string option"

record tg_message =
  message_id :: int
  chat_id :: int
  msg_text :: "string option"
  msg_caption :: "string option"
  msg_photo :: "string list option"  \<comment> \<open>the \<open>file_id\<close>s of the sizes of a photo\<close>
  msg_video :: "string option"  \<comment> \<open>the \<open>file_id\<close> of the video\<close>
  msg_document :: "string option"
  msg_audio :: "string option"

record msg_ctx =
  ctx_from :: "tg_user option"
  ctx_message :: "tg_message option"
  ctx_now :: int  \<comment> \<open>\<open>Date.now()\<close>\<close>
  ctx_reply_id :: int  \<comment> \<open>the \<open>message_id\<close> of the prompt that \<open>ctx.reply\<close> returns\<close>

record cb_ctx =
  cb_from :: "tg_user option"
  cb_data :: "string option"  \<comment> \<open>\<open>callback_query.data\<close>, when the query has one\<close>
  cb_has_message :: bool  \<comment> \<open>\<open>ctx.callbackQuery?.message\<close>\<close>

section \<open>What goes out: calls of the messaging transport\<close>

text \<open>
  A call is tagged with the destination the program computes for it: the submitter
  (\<open>notifyUser\<close>), the reviewer (\<open>sendToAdmin\<close>, \<open>sendMessageToAdmin\<close>) or the channel
  (\<open>publishToChannel\<close>).  \<open>SendMedia\<close> stands for \<open>sendPhoto\<close>, \<open>sendVideo\<close>,
  \<open>sendDocument\<close> and \<open>sendAudio\<close>, chosen by the media type.
\<close>

datatype dest = ToUser int | ToAdmin "int option" | ToChannel string

datatype extra = Plain | Html | HtmlButtons

datatype call =
    Reply string
  | ReplyWithChoices string int
  | AnswerCbQuery "string option"
  | EditMessageText string
  | DeleteMessage
  | SendMessage dest string extra
  | SendMedia mediaType dest string "string option" extra

text \<open>
  The log keeps every call that is attempted, with the queue as it is at that moment and
  whether the call succeeded.  The transport is a parameter: \<open>net i c\<close> tells whether the
  call \<open>c\<close>, made as the \<open>i\<close>-th call of a handler, succeeds.
\<close>

record entry =
  e_queue :: "PendingMessage list"
  e_call :: call
  e_ok :: bool

type_synonym net = "nat \<Rightarrow> call \<Rightarrow> bool"

datatype err = ConfigError | TransportError | TypeError

datatype 'a outcome = Ok 'a | Thrown err

type_synonym world = "BotState \<times> entry list"

type_synonym 'a prog = "world \<Rightarrow> 'a outcome \<times> world"

definition returnP :: "'a \<Rightarrow> 'a prog" where
  "returnP x = (\<lambda>w. (Ok x, w))"

definition throwP :: "err \<Rightarrow> 'a prog" where
  "throwP e = (\<lambda>w. (Thrown e, w))"

definition andThen :: "'a prog \<Rightarrow> ('a \<Rightarrow> 'b prog) \<Rightarrow> 'b prog" where
  "andThen m f = (\<lambda>w. case m w of (Ok x, w') \<Rightarrow> f x w' | (Thrown e, w') \<Rightarrow> (Thrown e, w'))"

definition tryCatch :: "'a prog \<Rightarrow> (err \<Rightarrow> 'a prog) \<Rightarrow> 'a prog" where
  "tryCatch m h = (\<lambda>w. case m w of (Ok x, w') \<Rightarrow> (Ok x, w') | (Thrown e, w') \<Rightarrow> h e w')"

definition getState :: "BotState prog" where
  "getState = (\<lambda>(s, l). (Ok s, (s, l)))"

definition modify :: "(BotState \<Rightarrow> BotState) \<Rightarrow> unit prog" where
  "modify f = (\<lambda>(s, l). (Ok (), (f s, l)))"

definition attempt :: "net \<Rightarrow> world \<Rightarrow> call \<Rightarrow> entry" where
  "attempt net w c =
     \<lparr> e_queue = messageQueue (fst w), e_call = c, e_ok = net (length (snd w)) c \<rparr>"

definition send :: "net \<Rightarrow> call \<Rightarrow> unit prog" where
  "send net c = (\<lambda>w.
     ((if e_ok (attempt net w c) then Ok () else Thrown TransportError),
      (fst w, snd w @ [attempt net w c])))"

section \<open>The program (\<open>MessageReviewBot\<close>)\<close>

subsection \<open>Extracting the content of a message, lines 239 to 284\<close>

definition getMessageText :: "tg_message \<Rightarrow> string option" where
  "getMessageText message =
     (case msg_text message of Some t \<Rightarrow> Some t | None \<Rightarrow> msg_caption message)"

definition getMessageType :: "tg_message \<Rightarrow> string" where
  "getMessageType message =
     (if msg_text message \<noteq> None then ''text''
      else if msg_photo message \<noteq> None then ''photo''
      else if msg_video message \<noteq> None then ''video''
      else if msg_document message \<noteq> None then ''document''
      else if msg_audio message \<noteq> None then ''audio''
      else ''unknown'')"

definition getMediaData :: "tg_message \<Rightarrow> mediaData option prog" where
  \<comment> \<open>\<open>message.photo[message.photo.length - 1].file_id\<close> throws on an empty array\<close>
  "getMediaData message =
     (case msg_photo message of
        Some sizes \<Rightarrow>
          (if sizes = [] then throwP TypeError
           else returnP (Some \<lparr> fileId = last sizes, mtype = Photo,
                               caption = msg_caption message \<rparr>))
      | None \<Rightarrow>
     (case msg_video message of
        Some f \<Rightarrow> returnP (Some \<lparr> fileId = f, mtype = Video, caption = msg_caption message \<rparr>)
      | None \<Rightarrow>
     (case msg_document message of
        Some f \<Rightarrow> returnP (Some \<lparr> fileId = f, mtype = Document, caption = msg_caption message \<rparr>)
      | None \<Rightarrow>
     (case msg_audio message of
        Some f \<Rightarrow> returnP (Some \<lparr> fileId = f, mtype = Audio, caption = msg_caption message \<rparr>)
      | None \<Rightarrow> returnP None))))"

subsection \<open>Messages that never fail the handler, lines 518 to 533\<close>

definition notifyUser :: "net \<Rightarrow> int \<Rightarrow> string \<Rightarrow> unit prog" where
  "notifyUser net uid txt =
     tryCatch (send net (SendMessage (ToUser uid) txt Plain)) (\<lambda>error. returnP ())"

definition sendToAdmin :: "config \<Rightarrow> net \<Rightarrow> string \<Rightarrow> unit prog" where
  "sendToAdmin cfg net txt =
     tryCatch (send net (SendMessage (ToAdmin (adminId cfg)) txt Plain)) (\<lambda>error. returnP ())"

subsection \<open>Presenting a record to the reviewer, lines 286 to 371\<close>

definition formatMessageCaption :: "config \<Rightarrow> PendingMessage \<Rightarrow> string" where
  "formatMessageCaption cfg message =
     cap_header
     @ cap_name @ userName message @ [CHR 0x0A]
     @ (if truthy (username message) then cap_username @ the (username message) @ [CHR 0x0A]
        else [])
     @ cap_id @ show_int (userId message) @ [CHR 0x0A]
     @ cap_publish_type
     @ (if publishType message = With_name then cap_with_author else cap_anonymous)
     @ [CHR 0x0A, CHR 0x0A]
     @ (if truthy (msgText message)
        then cap_text @ the (msgText message) @ [CHR 0x0A, CHR 0x0A]
        else (case media message of
                None \<Rightarrow> []
              | Some md \<Rightarrow>
                  if truthy (caption md) then cap_caption @ the (caption md) @ [CHR 0x0A, CHR 0x0A]
                  else []))
     @ cap_time @ toLocaleString cfg (timestamp message)"

definition reviewCall :: "config \<Rightarrow> PendingMessage \<Rightarrow> call option" where
  \<comment> \<open>the call \<open>sendMessageToAdmin\<close> makes for a record, none when the record has neither
      media nor a non-empty text\<close>
  "reviewCall cfg message =
     (case media message of
        Some md \<Rightarrow>
          Some (SendMedia (mtype md) (ToAdmin (adminId cfg)) (fileId md)
                  (Some (formatMessageCaption cfg message)) HtmlButtons)
      | None \<Rightarrow>
          if truthy (msgText message)
          then Some (SendMessage (ToAdmin (adminId cfg)) (formatMessageCaption cfg message)
                       HtmlButtons)
          else None)"

definition sendMessageToAdmin :: "config \<Rightarrow> net \<Rightarrow> PendingMessage \<Rightarrow> unit prog" where
  "sendMessageToAdmin cfg net message =
     tryCatch
       (case reviewCall cfg message of Some c \<Rightarrow> send net c | None \<Rightarrow> returnP ())
       (\<lambda>error. returnP ())"

definition showNextMessageToAdmin :: "config \<Rightarrow> net \<Rightarrow> unit prog" where
  \<comment> \<open>\<open>messageQueue[currentMessageIndex]\<close> out of range is \<open>undefined\<close>, and
      \<open>formatMessageCaption(undefined)\<close> throws before the \<open>try\<close>\<close>
  "showNextMessageToAdmin cfg net =
     andThen getState (\<lambda>s.
       if length (messageQueue s) = 0 then sendToAdmin cfg net txt_queue_empty
       else (case nth_opt (messageQueue s) (currentMessageIndex s) of
               None \<Rightarrow> throwP TypeError
             | Some currentMessage \<Rightarrow> sendMessageToAdmin cfg net currentMessage))"

subsection \<open>Staging a submission, lines 70 to 113\<close>

definition tempKeyOf :: "int \<Rightarrow> int option \<Rightarrow> string" where
  "tempKeyOf uid mid = ''temp_'' @ show_int uid @ ''_'' @ show_num mid"

definition choiceKeyOf :: "int option \<Rightarrow> string" where
  "choiceKeyOf mid = ''choice_'' @ show_num mid"

definition mapSet :: "string \<Rightarrow> PendingMessage \<Rightarrow> BotState \<Rightarrow> BotState" where
  "mapSet k v s = s\<lparr> pendingMessages := (pendingMessages s)(k \<mapsto> v) \<rparr>"

definition mapDelete :: "string \<Rightarrow> BotState \<Rightarrow> BotState" where
  "mapDelete k s = s\<lparr> pendingMessages := (pendingMessages s)(k := None) \<rparr>"

definition handleUserMessage :: "net \<Rightarrow> msg_ctx \<Rightarrow> unit prog" where
  "handleUserMessage net ctx =
     (case (ctx_from ctx, ctx_message ctx) of
        (Some user, Some message) \<Rightarrow>
          (let tempKey = tempKeyOf (from_id user) (Some (message_id message)) in
           andThen (getMediaData message) (\<lambda>md.
             let tempMessage =
               \<lparr> userId = from_id user,
                 userName = from_first_name user,
                 username = from_username user,
                 messageId = message_id message,
                 chatId = chat_id message,
                 msgText = getMessageText message,
                 contentType = getMessageType message,
                 media = md,
                 timestamp = ctx_now ctx,
                 publishType = Pending,
                 choiceMessageId = None \<rparr>
             in
             andThen (modify (mapSet tempKey tempMessage)) (\<lambda>_.
             andThen (send net (ReplyWithChoices txt_choice_prompt (message_id message))) (\<lambda>_.
             modify (mapSet (choiceKeyOf (Some (message_id message)))
                       (tempMessage\<lparr> choiceMessageId := Some (ctx_reply_id ctx) \<rparr>))))))
      | _ \<Rightarrow> returnP ())"

subsection \<open>Resolving the submitter's choice, lines 115 to 187\<close>

datatype flow = Next | Handled

definition handleUserChoice :: "config \<Rightarrow> net \<Rightarrow> cb_ctx \<Rightarrow> flow prog" where
  "handleUserChoice cfg net ctx =
     (case cb_data ctx of
        None \<Rightarrow> returnP Next
      | Some callbackData \<Rightarrow>
     (case cb_from ctx of
        None \<Rightarrow> returnP Next
      | Some user \<Rightarrow>
          if \<not> startsWith callbackData ''user_choice:'' then returnP Next
          else
            let parts = split_colon callbackData;
                choice = nth_opt parts 1;
                originalMessageId = parseInt (nth_opt parts 2);
                tempKey = tempKeyOf (from_id user) originalMessageId
            in
            andThen getState (\<lambda>s.
            (case pendingMessages s tempKey of
               None \<Rightarrow>
                 andThen (send net (AnswerCbQuery (Some txt_choice_not_found))) (\<lambda>_.
                 returnP Handled)
             | Some tempMessage \<Rightarrow>
                 andThen
                   (tryCatch
                      (andThen
                         (if choice = Some ''cancel'' then
                            andThen (send net (EditMessageText txt_cancelled)) (\<lambda>_.
                            andThen (modify (mapDelete tempKey)) (\<lambda>_.
                            modify (mapDelete (choiceKeyOf originalMessageId))))
                          else if choice = Some ''with_name'' \<or> choice = Some ''anonymous'' then
                            let finalMessage = tempMessage\<lparr> publishType :=
                                  (if choice = Some ''with_name'' then With_name else Anonymous) \<rparr>
                            in
                            andThen (modify (\<lambda>s. s\<lparr> messageQueue :=
                                                      messageQueue s @ [finalMessage] \<rparr>)) (\<lambda>_.
                            andThen getState (\<lambda>s1.
                            let messageIndex = length (messageQueue s1) - 1 in
                            andThen (modify (mapSet (show_nat messageIndex) finalMessage)) (\<lambda>_.
                            andThen (modify (mapDelete tempKey)) (\<lambda>_.
                            andThen (modify (mapDelete (choiceKeyOf originalMessageId))) (\<lambda>_.
                            andThen (send net (EditMessageText
                                       (if choice = Some ''with_name'' then txt_sent_with_name
                                        else txt_sent_anonymous))) (\<lambda>_.
                            andThen getState (\<lambda>s2.
                            if length (messageQueue s2) = 1 then showNextMessageToAdmin cfg net
                            else returnP ())))))))
                          else returnP ())
                         (\<lambda>_. send net (AnswerCbQuery None)))
                      (\<lambda>error. send net (AnswerCbQuery (Some txt_error))))
                   (\<lambda>_. returnP Handled)))))"

subsection \<open>Publishing, lines 434 to 516\<close>

definition replaceAll :: "char \<Rightarrow> string \<Rightarrow> string \<Rightarrow> string" where
  \<comment> \<open>\<open>text.replace(/c/g, r)\<close> for a single character \<open>c\<close>\<close>
  "replaceAll c r s = concat (map (\<lambda>x. if x = c then r else [x]) s)"

definition escapeHTML :: "string \<Rightarrow> string" where
  "escapeHTML s =
     replaceAll CHR ''>'' ''&gt;'' (replaceAll CHR ''<'' ''&lt;'' (replaceAll CHR ''&'' ''&amp;'' s))"

definition signature :: "config \<Rightarrow> string" where
  "signature cfg = sig_prefix @ botUsername cfg @ sig_suffix"

definition authorInfo :: "PendingMessage \<Rightarrow> string" where
  "authorInfo message =
     author_prefix @ userName message
     @ (if truthy (username message) then '' (@'' @ the (username message) @ '')'' else [])"

definition composed :: "PendingMessage \<Rightarrow> string \<times> string" where
  \<comment> \<open>\<open>(finalCaption, finalText)\<close> after lines 446 to 468, before the signature is added\<close>
  "composed message =
     (if publishType message = With_name then
        (case media message of
           Some md \<Rightarrow>
             (authorInfo message
                @ (if truthy (caption md) then [CHR 0x0A, CHR 0x0A] @ the (caption md) else []),
              [])
         | None \<Rightarrow>
             if truthy (msgText message)
             then ([], authorInfo message @ [CHR 0x0A, CHR 0x0A] @ the (msgText message))
             else ([], []))
      else
        (case media message of
           Some md \<Rightarrow>
             if truthy (caption md) then (the (caption md), [])
             else if truthy (msgText message) then ([], the (msgText message))
             else ([], [])
         | None \<Rightarrow>
             if truthy (msgText message) then ([], the (msgText message)) else ([], [])))"

definition withSignature :: "config \<Rightarrow> PendingMessage \<Rightarrow> string \<times> string" where
  \<comment> \<open>lines 471 to 475\<close>
  "withSignature cfg message =
     (let (finalCaption, finalText) = composed message in
      if media message \<noteq> None
      then ((if finalCaption \<noteq> [] then finalCaption @ signature cfg else signature cfg), finalText)
      else (finalCaption, (if finalText \<noteq> [] then finalText @ signature cfg else signature cfg)))"

definition channelCall :: "config \<Rightarrow> string \<Rightarrow> PendingMessage \<Rightarrow> call option" where
  \<comment> \<open>lines 485 to 511: the call made to the channel, none when the record has neither
      media nor a non-empty text\<close>
  "channelCall cfg channel message =
     (let (finalCaption, finalText) = withSignature cfg message in
      case media message of
        Some md \<Rightarrow>
          Some (SendMedia (mtype md) (ToChannel channel) (fileId md)
                  (if finalCaption \<noteq> [] then Some (escapeHTML finalCaption) else None) Html)
      | None \<Rightarrow>
          if truthy (msgText message)
          then Some (SendMessage (ToChannel channel) (escapeHTML finalText) Html)
          else None)"

definition publishToChannel :: "config \<Rightarrow> net \<Rightarrow> PendingMessage \<Rightarrow> unit prog" where
  "publishToChannel cfg net message =
     (if \<not> truthy (channelId cfg) then throwP ConfigError
      else
        tryCatch
          (case channelCall cfg (the (channelId cfg)) message of
             Some c \<Rightarrow> send net c
           | None \<Rightarrow> returnP ())
          (\<lambda>error. throwP error))"

subsection \<open>The reviewer's decisions, lines 189 to 237 and 373 to 432\<close>

definition moveToNextMessage :: "config \<Rightarrow> net \<Rightarrow> unit prog" where
  \<comment> \<open>\<open>splice(i, 1)\<close> removes the element at \<open>i\<close>, nothing when \<open>i\<close> is out of range\<close>
  "moveToNextMessage cfg net =
     andThen getState (\<lambda>s.
     andThen (modify (mapDelete (show_nat (currentMessageIndex s)))) (\<lambda>_.
     andThen (modify (\<lambda>s. s\<lparr> messageQueue :=
                take (currentMessageIndex s) (messageQueue s)
                @ drop (Suc (currentMessageIndex s)) (messageQueue s) \<rparr>)) (\<lambda>_.
     andThen getState (\<lambda>s1.
     if length (messageQueue s1) = 0 then
       andThen (modify (\<lambda>s. s\<lparr> currentMessageIndex := 0 \<rparr>)) (\<lambda>_.
       sendToAdmin cfg net txt_all_done)
     else showNextMessageToAdmin cfg net))))"

definition handleApprove :: "config \<Rightarrow> net \<Rightarrow> unit prog" where
  "handleApprove cfg net =
     andThen getState (\<lambda>s.
     (case nth_opt (messageQueue s) (currentMessageIndex s) of
        None \<Rightarrow> send net (AnswerCbQuery (Some txt_message_not_found))
      | Some currentMessage \<Rightarrow>
          tryCatch
            (andThen (publishToChannel cfg net currentMessage) (\<lambda>_.
             andThen (notifyUser net (userId currentMessage)
                        (txt_approved
                         @ (if publishType currentMessage = With_name
                            then txt_approved_with_name else txt_approved_anonymous))) (\<lambda>_.
             moveToNextMessage cfg net)))
            (\<lambda>error. throwP error)))"

definition handleReject :: "config \<Rightarrow> net \<Rightarrow> unit prog" where
  "handleReject cfg net =
     andThen getState (\<lambda>s.
     (case nth_opt (messageQueue s) (currentMessageIndex s) of
        None \<Rightarrow> send net (AnswerCbQuery (Some txt_message_not_found))
      | Some currentMessage \<Rightarrow>
          andThen (notifyUser net (userId currentMessage) txt_rejected) (\<lambda>_.
          moveToNextMessage cfg net)))"

definition handleSkip :: "config \<Rightarrow> net \<Rightarrow> unit prog" where
  "handleSkip cfg net = moveToNextMessage cfg net"

definition authorized :: "config \<Rightarrow> cb_ctx \<Rightarrow> bool" where
  \<comment> \<open>the negation of \<open>ctx.from?.id !== adminId\<close>; \<open>NaN\<close> and \<open>undefined\<close> equal nothing\<close>
  "authorized cfg ctx =
     (case (cb_from ctx, adminId cfg) of
        (Some user, Some admin) \<Rightarrow> from_id user = admin
      | _ \<Rightarrow> False)"

definition handleAdminCallback :: "config \<Rightarrow> net \<Rightarrow> cb_ctx \<Rightarrow> unit prog" where
  "handleAdminCallback cfg net ctx =
     (case cb_data ctx of
        None \<Rightarrow> returnP ()
      | Some callbackData \<Rightarrow>
          if \<not> authorized cfg ctx then send net (AnswerCbQuery (Some txt_no_rights))
          else
            tryCatch
              (if callbackData = ''admin_approve'' \<or> callbackData = ''admin_reject''
                  \<or> callbackData = ''admin_skip'' then
                 andThen
                   (if callbackData = ''admin_approve'' then handleApprove cfg net
                    else if callbackData = ''admin_reject'' then handleReject cfg net
                    else handleSkip cfg net) (\<lambda>_.
                 andThen
                   (if cb_has_message ctx
                    then tryCatch (send net DeleteMessage) (\<lambda>deleteError. returnP ())
                    else returnP ()) (\<lambda>_.
                 send net (AnswerCbQuery None)))
               else send net (AnswerCbQuery (Some txt_unknown_action)))
              (\<lambda>error. send net (AnswerCbQuery (Some txt_error))))"

subsection \<open>Dispatch, lines 39 to 68\<close>

definition handleStart :: "net \<Rightarrow> msg_ctx \<Rightarrow> unit prog" where
  "handleStart net ctx =
     send net (Reply (txt_greeting_prefix
                      @ (case ctx_from ctx of None \<Rightarrow> ''undefined''
                         | Some user \<Rightarrow> from_first_name user)
                      @ txt_greeting_suffix))"

datatype update = StartCommand msg_ctx | Message msg_ctx | CallbackQuery cb_ctx

definition hasContent :: "msg_ctx \<Rightarrow> bool" where
  \<comment> \<open>the filters \<open>text\<close>, \<open>photo\<close>, \<open>video\<close>, \<open>document\<close>, \<open>audio\<close> of lines 44 to 50\<close>
  "hasContent ctx =
     (case ctx_message ctx of
        None \<Rightarrow> False
      | Some m \<Rightarrow> msg_text m \<noteq> None \<or> msg_photo m \<noteq> None \<or> msg_video m \<noteq> None
                  \<or> msg_document m \<noteq> None \<or> msg_audio m \<noteq> None)"

definition dispatch :: "config \<Rightarrow> net \<Rightarrow> update \<Rightarrow> unit prog" where
  "dispatch cfg net u =
     (case u of
        StartCommand ctx \<Rightarrow> handleStart net ctx
      | Message ctx \<Rightarrow> if hasContent ctx then handleUserMessage net ctx else returnP ()
      | CallbackQuery ctx \<Rightarrow>
          andThen (handleUserChoice cfg net ctx) (\<lambda>f.
            if f = Next \<and> (cb_data ctx = Some ''admin_approve'' \<or> cb_data ctx = Some ''admin_reject''
                           \<or> cb_data ctx = Some ''admin_skip'')
            then handleAdminCallback cfg net ctx
            else returnP ()))"

definition step :: "config \<Rightarrow> net \<Rightarrow> update \<Rightarrow> BotState \<Rightarrow> BotState \<times> entry list" where
  \<comment> \<open>one update handled to the end; an error that escapes is logged by \<open>handleError\<close> and
      the state stays as the handler left it\<close>
  "step cfg net u s = snd (dispatch cfg net u (s, []))"

section \<open>Observing a run\<close>

subsection \<open>Runs and reachable states\<close>

fun run :: "config \<Rightarrow> (net \<times> update) list \<Rightarrow> BotState \<Rightarrow> BotState \<times> entry list" where
  "run cfg [] s = (s, [])"
| "run cfg (e # es) s =
     (let r1 = step cfg (fst e) (snd e) s; r2 = run cfg es (fst r1)
      in (fst r2, snd r1 @ snd r2))"

inductive reachable :: "config \<Rightarrow> BotState \<Rightarrow> bool" for cfg :: config where
  initial: "reachable cfg initialState"
| after: "reachable cfg s \<Longrightarrow> reachable cfg (fst (step cfg net u s))"

subsection \<open>Calls by destination\<close>

definition callDest :: "call \<Rightarrow> dest option" where
  "callDest c =
     (case c of SendMessage d t x \<Rightarrow> Some d | SendMedia k d f cap x \<Rightarrow> Some d | _ \<Rightarrow> None)"

definition toUser :: "call \<Rightarrow> bool" where
  "toUser c = (case callDest c of Some (ToUser uid) \<Rightarrow> True | _ \<Rightarrow> False)"

definition toAdmin :: "call \<Rightarrow> bool" where
  "toAdmin c = (case callDest c of Some (ToAdmin a) \<Rightarrow> True | _ \<Rightarrow> False)"

definition toChannel :: "call \<Rightarrow> bool" where
  "toChannel c = (case callDest c of Some (ToChannel ch) \<Rightarrow> True | _ \<Rightarrow> False)"


definition isSend :: "entry \<Rightarrow> bool" where
  \<comment> \<open>a message sent to the submitter, the reviewer or the channel\<close>
  "isSend e =
     (case e_call e of SendMessage d t x \<Rightarrow> True | SendMedia k d f c x \<Rightarrow> True | _ \<Rightarrow> False)"

definition sends :: "entry list \<Rightarrow> entry list" where
  "sends l = filter isSend l"

definition hasButtons :: "call \<Rightarrow> bool" where
  \<comment> \<open>only \<open>sendMessageToAdmin\<close> attaches the three decision buttons\<close>
  "hasButtons c =
     (case c of SendMessage d t x \<Rightarrow> x = HtmlButtons
      | SendMedia k d f cap x \<Rightarrow> x = HtmlButtons
      | _ \<Rightarrow> False)"

definition presentations :: "entry list \<Rightarrow> call list" where
  \<comment> \<open>the records presented to the reviewer, as the calls that present them\<close>
  "presentations l = filter hasButtons (map e_call l)"

definition approvalNotice :: "PendingMessage \<Rightarrow> call" where
  \<comment> \<open>lines 386 to 389\<close>
  "approvalNotice m =
     SendMessage (ToUser (userId m))
       (txt_approved @ (if publishType m = With_name then txt_approved_with_name
                        else txt_approved_anonymous)) Plain"

definition rejectionNotice :: "PendingMessage \<Rightarrow> call" where
  \<comment> \<open>line 408\<close>
  "rejectionNotice m = SendMessage (ToUser (userId m)) txt_rejected Plain"



fun includesStr :: "string \<Rightarrow> string \<Rightarrow> bool" where
  \<comment> \<open>\<open>s.includes(p)\<close>: \<open>p\<close> occurs in \<open>s\<close>\<close>
  "includesStr [] p = (p = [])"
| "includesStr (c # cs) p = (startsWith (c # cs) p \<or> includesStr cs p)"

subsection \<open>Resolutions in the order they happen\<close>

definition finalOf :: "string option \<Rightarrow> PendingMessage \<Rightarrow> PendingMessage option" where
  \<comment> \<open>\<open>finalMessage\<close> of lines 154 to 157, for the choices that queue a record\<close>
  "finalOf choice tempMessage =
     (if choice = Some ''with_name'' then Some (tempMessage\<lparr> publishType := With_name \<rparr>)
      else if choice = Some ''anonymous'' then Some (tempMessage\<lparr> publishType := Anonymous \<rparr>)
      else None)"

definition resolved :: "cb_ctx \<Rightarrow> BotState \<Rightarrow> PendingMessage option" where
  \<comment> \<open>the record that \<open>handleUserChoice\<close> pushes on the queue for this callback, if any\<close>
  "resolved ctx s =
     (case (cb_data ctx, cb_from ctx) of
        (Some callbackData, Some user) \<Rightarrow>
          if startsWith callbackData ''user_choice:'' then
            (let parts = split_colon callbackData in
             case pendingMessages s (tempKeyOf (from_id user) (parseInt (nth_opt parts 2))) of
               None \<Rightarrow> None
             | Some tempMessage \<Rightarrow> finalOf (nth_opt parts 1) tempMessage)
          else None
      | _ \<Rightarrow> None)"

definition arrivals1 :: "update \<Rightarrow> BotState \<Rightarrow> PendingMessage list" where
  "arrivals1 u s =
     (case u of
        CallbackQuery ctx \<Rightarrow> (case resolved ctx s of Some fm \<Rightarrow> [fm] | None \<Rightarrow> [])
      | _ \<Rightarrow> [])"


subsection \<open>The effect of each handler on the state\<close>

text \<open>
  These definitions name the state changes and log pieces of the handlers; the lemmas of
  the next section prove that the handlers compute them.
\<close>

definition attempts :: "net \<Rightarrow> world \<Rightarrow> call option \<Rightarrow> entry list" where
  "attempts net w c = (case c of None \<Rightarrow> [] | Some c' \<Rightarrow> [attempt net w c'])"

definition presentation :: "config \<Rightarrow> net \<Rightarrow> world \<Rightarrow> entry list" where
  "presentation cfg net w =
     (case messageQueue (fst w) of
        [] \<Rightarrow> [attempt net w (SendMessage (ToAdmin (adminId cfg)) txt_queue_empty Plain)]
      | m # _ \<Rightarrow> attempts net w (reviewCall cfg m))"

definition popHead :: "BotState \<Rightarrow> BotState" where
  "popHead s = s\<lparr> pendingMessages := (pendingMessages s)(''0'' := None),
                  messageQueue := tl (messageQueue s) \<rparr>"

definition afterPop :: "config \<Rightarrow> net \<Rightarrow> world \<Rightarrow> entry list" where
  "afterPop cfg net w =
     (case messageQueue (fst w) of
        [] \<Rightarrow> [attempt net w (SendMessage (ToAdmin (adminId cfg)) txt_all_done Plain)]
      | m # _ \<Rightarrow> attempts net w (reviewCall cfg m))"

definition enqueue :: "PendingMessage \<Rightarrow> string \<Rightarrow> string \<Rightarrow> BotState \<Rightarrow> BotState" where
  "enqueue fm tk ck s =
     mapDelete ck (mapDelete tk (mapSet (show_nat (length (messageQueue s))) fm
       (s\<lparr> messageQueue := messageQueue s @ [fm] \<rparr>)))"

definition channelAttempt :: "config \<Rightarrow> net \<Rightarrow> world \<Rightarrow> PendingMessage \<Rightarrow> entry list" where
  "channelAttempt cfg net w m = attempts net w (channelCall cfg (the (channelId cfg)) m)"

definition channelOk :: "config \<Rightarrow> net \<Rightarrow> world \<Rightarrow> PendingMessage \<Rightarrow> bool" where
  "channelOk cfg net w m = (truthy (channelId cfg) \<and> list_all e_ok (channelAttempt cfg net w m))"

definition finishP :: "net \<Rightarrow> cb_ctx \<Rightarrow> unit prog" where
  \<comment> \<open>lines 224 to 232\<close>
  "finishP net ctx =
     andThen
       (if cb_has_message ctx
        then tryCatch (send net DeleteMessage) (\<lambda>deleteError. returnP ())
        else returnP ()) (\<lambda>_.
     send net (AnswerCbQuery None))"

definition outcomeOf :: "config \<Rightarrow> net \<Rightarrow> string \<Rightarrow> BotState \<Rightarrow> BotState \<times> entry list" where
  "outcomeOf cfg net d s =
     (case messageQueue s of
        [] \<Rightarrow>
          if d = ''admin_skip'' then (popHead s, afterPop cfg net (popHead s, []))
          else (s, [attempt net (s, []) (AnswerCbQuery (Some txt_message_not_found))])
      | m # q \<Rightarrow>
          if d = ''admin_approve'' then
            (if \<not> truthy (channelId cfg) then (s, [])
             else if \<not> channelOk cfg net (s, []) m then (s, channelAttempt cfg net (s, []) m)
             else
               let l1 = channelAttempt cfg net (s, []) m;
                   l2 = l1 @ [attempt net (s, l1) (approvalNotice m)]
               in (popHead s, l2 @ afterPop cfg net (popHead s, l2)))
          else if d = ''admin_reject'' then
            (let l1 = [attempt net (s, []) (rejectionNotice m)]
             in (popHead s, l1 @ afterPop cfg net (popHead s, l1)))
          else (popHead s, afterPop cfg net (popHead s, [])))"

definition stagedKeys :: "update \<Rightarrow> string list" where
  \<comment> \<open>the keys under which \<open>handleUserMessage\<close> stores a submission\<close>
  "stagedKeys u =
     (case u of
        Message ctx \<Rightarrow>
          (case (ctx_from ctx, ctx_message ctx) of
             (Some user, Some message) \<Rightarrow>
               [tempKeyOf (from_id user) (Some (message_id message)),
                choiceKeyOf (Some (message_id message))]
           | _ \<Rightarrow> [])
      | _ \<Rightarrow> [])"


text \<open>
  The changes of state that one update can make: \<open>transition cfg s K new pres s'\<close> says
  that the update takes \<open>s\<close> to \<open>s'\<close>, stores submissions under the keys \<open>K\<close>, pushes
  the records \<open>new\<close> on the queue and presents \<open>pres\<close> to the reviewer.
\<close>

inductive transition ::
  "config \<Rightarrow> BotState \<Rightarrow> string list \<Rightarrow> PendingMessage list \<Rightarrow> call list \<Rightarrow> BotState \<Rightarrow> bool"
  for cfg :: config and s :: BotState where
  same: "transition cfg s [] [] [] s"
| staged: "transition cfg s [tempKeyOf uid mid] [] [] (mapSet (tempKeyOf uid mid) v s)"
| prompted:
    "transition cfg s [tempKeyOf uid mid, choiceKeyOf mid'] [] []
       (mapSet (choiceKeyOf mid') v' (mapSet (tempKeyOf uid mid) v s))"
| cancelled:
    "transition cfg s [] [] [] (mapDelete (choiceKeyOf mid') (mapDelete (tempKeyOf uid mid) s))"
| queued:
    "pres = [] \<or> (messageQueue s = [] \<and> map Some pres = [reviewCall cfg fm]) \<Longrightarrow>
     transition cfg s [] [fm] pres (enqueue fm (tempKeyOf uid mid) (choiceKeyOf mid') s)"
| popped:
    "pres = [] \<or> (\<exists>m rest. tl (messageQueue s) = m # rest
                     \<and> map Some pres = [reviewCall cfg m]) \<Longrightarrow>
     transition cfg s [] [] pres (popHead s)"


definition inv0 :: "BotState \<Rightarrow> bool" where
  "inv0 s = (messageQueue s = [] \<longrightarrow> pendingMessages s ''0'' = None)"

section \<open>Example inputs\<close>

text \<open>
  A configuration, a transport on which every call succeeds, a submitter with a given
  display name and handle, the reviewer, a text submission, the submitter's choice, and
  the states they lead to from the initial state.
\<close>

definition ex_cfg :: config where
  "ex_cfg = \<lparr> botUsername = ''bot'', adminId = Some 1, channelId = Some ''@chan'',
              toLocaleString = (\<lambda>t. ''now'') \<rparr>"

definition ex_cfg_no_channel :: config where
  "ex_cfg_no_channel = ex_cfg\<lparr> channelId := None \<rparr>"

definition ex_net :: net where
  "ex_net = (\<lambda>i c. True)"


definition ex_user :: "string \<Rightarrow> string option \<Rightarrow> tg_user" where
  "ex_user name handle = \<lparr> from_id = 5, from_first_name = name, from_username = handle \<rparr>"

definition ex_alice :: tg_user where
  "ex_alice = ex_user ''Alice'' None"

definition ex_admin :: tg_user where
  "ex_admin = \<lparr> from_id = 1, from_first_name = ''Rita'', from_username = None \<rparr>"

definition ex_submission :: "tg_user \<Rightarrow> string \<Rightarrow> update" where
  "ex_submission user txt = Message \<lparr> ctx_from = Some user,
     ctx_message = Some \<lparr> message_id = 7, chat_id = 5, msg_text = Some txt,
       msg_caption = None, msg_photo = None, msg_video = None, msg_document = None,
       msg_audio = None \<rparr>,
     ctx_now = 0, ctx_reply_id = 8 \<rparr>"

definition ex_choice :: "tg_user \<Rightarrow> string \<Rightarrow> cb_ctx" where
  "ex_choice user c = \<lparr> cb_from = Some user,
     cb_data = Some (''user_choice:'' @ c @ '':7''), cb_has_message = True \<rparr>"

definition ex_decision :: "tg_user \<Rightarrow> string \<Rightarrow> cb_ctx" where
  "ex_decision who d = \<lparr> cb_from = Some who, cb_data = Some d, cb_has_message = True \<rparr>"

definition ex_rec :: "tg_user \<Rightarrow> string \<Rightarrow> publish_type \<Rightarrow> PendingMessage" where
  "ex_rec user txt mode = \<lparr> userId = from_id user, userName = from_first_name user,
     username = from_username user, messageId = 7, chatId = 5,
     msgText = Some txt, contentType = ''text'', media = None, timestamp = 0,
     publishType = mode, choiceMessageId = None \<rparr>"

definition ex_record :: PendingMessage where
  "ex_record = ex_rec ex_alice ''Hello'' Anonymous"

definition ex_stage :: "config \<Rightarrow> tg_user \<Rightarrow> string \<Rightarrow> BotState" where
  "ex_stage cfg user txt = fst (step cfg ex_net (ex_submission user txt) initialState)"

definition ex_queue :: "config \<Rightarrow> tg_user \<Rightarrow> string \<Rightarrow> string \<Rightarrow> BotState" where
  "ex_queue cfg user txt c =
     fst (step cfg ex_net (CallbackQuery (ex_choice user c)) (ex_stage cfg user txt))"

definition ex_staged :: "config \<Rightarrow> BotState" where
  "ex_staged cfg = ex_stage cfg ex_alice ''Hello''"

definition ex_queued :: "config \<Rightarrow> BotState" where
  "ex_queued cfg = ex_queue cfg ex_alice ''Hello'' ''anonymous''"









section \<open>What the handlers compute\<close>

lemmas prog_defs = returnP_def throwP_def andThen_def tryCatch_def getState_def modify_def send_def

lemma show_nat_0: "show_nat 0 = ''0''"
  by (simp add: show_nat.simps digit_char_def)

lemma notifyUser_run:
  "notifyUser net uid txt w = (Ok (), (fst w, snd w @ [attempt net w (SendMessage (ToUser uid) txt Plain)]))"
  by (simp add: notifyUser_def prog_defs)

lemma sendToAdmin_run:
  "sendToAdmin cfg net txt w =
     (Ok (), (fst w, snd w @ [attempt net w (SendMessage (ToAdmin (adminId cfg)) txt Plain)]))"
  by (simp add: sendToAdmin_def prog_defs)

lemma sendMessageToAdmin_run:
  "sendMessageToAdmin cfg net m w = (Ok (), (fst w, snd w @ attempts net w (reviewCall cfg m)))"
  by (simp add: sendMessageToAdmin_def prog_defs attempts_def split: option.splits)

lemma nth_opt_0: "nth_opt xs 0 = (case xs of [] \<Rightarrow> None | x # _ \<Rightarrow> Some x)"
  by (cases xs) (simp_all add: nth_opt_def)

lemma showNextMessageToAdmin_run:
  "currentMessageIndex (fst w) = 0 \<Longrightarrow>
   showNextMessageToAdmin cfg net w = (Ok (), (fst w, snd w @ presentation cfg net w))"
  by (cases w)
     (simp add: showNextMessageToAdmin_def andThen_def getState_def nth_opt_0 sendToAdmin_run
        sendMessageToAdmin_run presentation_def split: list.splits)

lemma moveToNextMessage_run:
  "currentMessageIndex (fst w) = 0 \<Longrightarrow>
   moveToNextMessage cfg net w =
     (Ok (), (popHead (fst w), snd w @ afterPop cfg net (popHead (fst w), snd w)))"
  apply (cases w)
  apply (simp add: moveToNextMessage_def andThen_def getState_def modify_def mapDelete_def
        show_nat_0 sendToAdmin_run showNextMessageToAdmin_run popHead_def
        afterPop_def presentation_def drop_Suc attempt_def attempts_def split: list.splits option.splits)
  done

lemma publishToChannel_run:
  "publishToChannel cfg net m w =
     (if \<not> truthy (channelId cfg) then (Thrown ConfigError, w)
      else ((if channelOk cfg net w m then Ok () else Thrown TransportError),
            (fst w, snd w @ channelAttempt cfg net w m)))"
  by (simp add: publishToChannel_def prog_defs channelAttempt_def channelOk_def attempts_def
      split: option.splits)

lemma isSend_attempt [simp]:
  "isSend (attempt net w (SendMessage d t x))"
  "isSend (attempt net w (SendMedia k d f c x))"
  "\<not> isSend (attempt net w (AnswerCbQuery a))"
  "\<not> isSend (attempt net w DeleteMessage)"
  "\<not> isSend (attempt net w (EditMessageText t))"
  by (simp_all add: isSend_def attempt_def)

lemma sends_simps [simp]:
  "sends [] = []"
  "sends (a @ b) = sends a @ sends b"
  "sends (e # l) = (if isSend e then e # sends l else sends l)"
  by (simp_all add: sends_def)

lemma finishP_run:
  "\<exists>r ext. finishP net ctx w = (r, (fst w, snd w @ ext)) \<and> sends ext = []"
  by (simp add: finishP_def prog_defs)

lemma handleAdminCallback_unfold:
  "authorized cfg ctx \<Longrightarrow> cb_data ctx = Some d \<Longrightarrow>
   d = ''admin_approve'' \<or> d = ''admin_reject'' \<or> d = ''admin_skip'' \<Longrightarrow>
   handleAdminCallback cfg net ctx =
     tryCatch
       (andThen (if d = ''admin_approve'' then handleApprove cfg net
                 else if d = ''admin_reject'' then handleReject cfg net
                 else handleSkip cfg net) (\<lambda>_. finishP net ctx))
       (\<lambda>error. send net (AnswerCbQuery (Some txt_error)))"
  by (auto simp add: handleAdminCallback_def finishP_def)

lemma wrap_ok:
  assumes "h w = (Ok (), (s', snd w @ ext))"
  shows "\<exists>ext'. snd (tryCatch (andThen h (\<lambda>_. finishP net ctx))
                   (\<lambda>error. send net (AnswerCbQuery (Some txt_error))) w)
           = (s', snd w @ ext @ ext') \<and> sends ext' = []"
proof -
  obtain r e where f: "finishP net ctx (s', snd w @ ext) = (r, (s', (snd w @ ext) @ e))" "sends e = []"
    using finishP_run [of net ctx "(s', snd w @ ext)"] by auto
  show ?thesis
    using assms f by (cases r) (auto simp: tryCatch_def andThen_def send_def)
qed

lemma wrap_thrown:
  assumes "h w = (Thrown x, (s', snd w @ ext))"
  shows "\<exists>ext'. snd (tryCatch (andThen h (\<lambda>_. finishP net ctx))
                   (\<lambda>error. send net (AnswerCbQuery (Some txt_error))) w)
           = (s', snd w @ ext @ ext') \<and> sends ext' = []"
  using assms by (auto simp: tryCatch_def andThen_def send_def)

lemma handleApprove_run:
  "currentMessageIndex s = 0 \<Longrightarrow>
   \<exists>r. handleApprove cfg net (s, []) = (r, outcomeOf cfg net ''admin_approve'' s)"
  by (cases "messageQueue s")
     (simp_all add: handleApprove_def andThen_def getState_def tryCatch_def throwP_def nth_opt_0
        send_def publishToChannel_run notifyUser_run moveToNextMessage_run outcomeOf_def
        approvalNotice_def Let_def)

lemma handleReject_run:
  "currentMessageIndex s = 0 \<Longrightarrow>
   \<exists>r. handleReject cfg net (s, []) = (r, outcomeOf cfg net ''admin_reject'' s)"
  by (cases "messageQueue s")
     (simp_all add: handleReject_def andThen_def getState_def nth_opt_0
        send_def notifyUser_run moveToNextMessage_run outcomeOf_def
        rejectionNotice_def Let_def)

lemma handleSkip_run:
  "currentMessageIndex s = 0 \<Longrightarrow>
   \<exists>r. handleSkip cfg net (s, []) = (r, outcomeOf cfg net ''admin_skip'' s)"
  by (cases "messageQueue s")
     (simp_all add: handleSkip_def moveToNextMessage_run outcomeOf_def)

lemma wrap_any:
  fixes h :: "unit prog"
  assumes "h (s, []) = (r, (s', ext))"
  shows "\<exists>ext'. snd (tryCatch (andThen h (\<lambda>_. finishP net ctx))
                   (\<lambda>error. send net (AnswerCbQuery (Some txt_error))) (s, []))
           = (s', ext @ ext') \<and> sends ext' = []"
proof (cases r)
  case (Ok u)
  then show ?thesis using wrap_ok [of h "(s, [])" s' ext net ctx] assms by simp
next
  case (Thrown x)
  then show ?thesis using wrap_thrown [of h "(s, [])" x s' ext net ctx] assms by simp
qed

lemma userChoice_passes:
  "d = ''admin_approve'' \<or> d = ''admin_reject'' \<or> d = ''admin_skip'' \<Longrightarrow> cb_data ctx = Some d \<Longrightarrow>
   handleUserChoice cfg net ctx w = (Ok Next, w)"
  by (auto simp add: handleUserChoice_def returnP_def startsWith_def split: option.splits)

lemma step_admin:
  "d = ''admin_approve'' \<or> d = ''admin_reject'' \<or> d = ''admin_skip'' \<Longrightarrow> cb_data ctx = Some d \<Longrightarrow>
   step cfg net (CallbackQuery ctx) s = snd (handleAdminCallback cfg net ctx (s, []))"
  by (auto simp add: step_def dispatch_def andThen_def userChoice_passes)

lemma decide_run:
  assumes "authorized cfg ctx" "cb_data ctx = Some d"
    "d = ''admin_approve'' \<or> d = ''admin_reject'' \<or> d = ''admin_skip''"
    "currentMessageIndex s = 0"
  shows "\<exists>ext'. step cfg net (CallbackQuery ctx) s
           = (fst (outcomeOf cfg net d s), snd (outcomeOf cfg net d s) @ ext') \<and> sends ext' = []"
proof -
  let ?h = "if d = ''admin_approve'' then handleApprove cfg net
            else if d = ''admin_reject'' then handleReject cfg net else handleSkip cfg net"
  have "\<exists>r. ?h (s, []) = (r, outcomeOf cfg net d s)"
    using assms(3,4) handleApprove_run [of s cfg net] handleReject_run [of s cfg net]
      handleSkip_run [of s cfg net] by auto
  then obtain r where "?h (s, []) = (r, (fst (outcomeOf cfg net d s), snd (outcomeOf cfg net d s)))"
    by auto
  then show ?thesis
    using wrap_any [of ?h s r "fst (outcomeOf cfg net d s)" "snd (outcomeOf cfg net d s)" net ctx]
      assms(1,2,3)
    by (simp add: step_admin handleAdminCallback_unfold)
qed

lemma userChoice_next:
  "cb_data ctx = None \<or> cb_from ctx = None \<or> \<not> startsWith (the (cb_data ctx)) ''user_choice:'' \<Longrightarrow>
   handleUserChoice cfg net ctx w = (Ok Next, w)"
  by (auto simp add: handleUserChoice_def returnP_def split: option.splits)

lemma userChoice_notfound:
  assumes "cb_data ctx = Some d" "cb_from ctx = Some user" "startsWith d ''user_choice:''"
    "pendingMessages s (tempKeyOf (from_id user) (parseInt (nth_opt (split_colon d) 2))) = None"
  shows "\<exists>r. handleUserChoice cfg net ctx (s, l) =
           (r, (s, l @ [attempt net (s, l) (AnswerCbQuery (Some txt_choice_not_found))]))"
  using assms
  by (simp add: handleUserChoice_def Let_def prog_defs)

lemma userChoice_other:
  assumes "cb_data ctx = Some d" "cb_from ctx = Some user" "startsWith d ''user_choice:''"
    "pendingMessages s (tempKeyOf (from_id user) (parseInt (nth_opt (split_colon d) 2))) = Some tm"
    "nth_opt (split_colon d) 1 \<noteq> Some ''cancel''" "finalOf (nth_opt (split_colon d) 1) tm = None"
  shows "\<exists>r ext. handleUserChoice cfg net ctx (s, l) = (r, (s, l @ ext)) \<and> sends ext = []"
  using assms
  by (simp add: handleUserChoice_def Let_def prog_defs finalOf_def split: if_splits)

lemma userChoice_cancel:
  assumes "cb_data ctx = Some d" "cb_from ctx = Some user" "startsWith d ''user_choice:''"
    "pendingMessages s (tempKeyOf (from_id user) (parseInt (nth_opt (split_colon d) 2))) = Some tm"
    "nth_opt (split_colon d) 1 = Some ''cancel''"
  shows "\<exists>r ext. handleUserChoice cfg net ctx (s, l) =
           (r, ((if net (length l) (EditMessageText txt_cancelled)
                 then mapDelete (choiceKeyOf (parseInt (nth_opt (split_colon d) 2)))
                        (mapDelete (tempKeyOf (from_id user) (parseInt (nth_opt (split_colon d) 2))) s)
                 else s), l @ ext)) \<and> sends ext = []"
  using assms
  by (simp add: handleUserChoice_def Let_def prog_defs attempt_def isSend_def)

lemma userChoice_resolved:
  assumes "cb_data ctx = Some d" "cb_from ctx = Some user" "startsWith d ''user_choice:''"
    "pendingMessages s (tempKeyOf (from_id user) (parseInt (nth_opt (split_colon d) 2))) = Some tm"
    "finalOf (nth_opt (split_colon d) 1) tm = Some fm" "currentMessageIndex s = 0"
  shows "\<exists>r ext. handleUserChoice cfg net ctx (s, l) =
           (r, (enqueue fm (tempKeyOf (from_id user) (parseInt (nth_opt (split_colon d) 2)))
                  (choiceKeyOf (parseInt (nth_opt (split_colon d) 2))) s, l @ ext))
         \<and> (sends ext = [] \<or> (messageQueue s = [] \<and> (\<exists>c. reviewCall cfg fm = Some c \<and> map e_call (sends ext) = [c])))"
  using assms
  apply (simp add: handleUserChoice_def Let_def finalOf_def split: if_splits)
   apply (simp_all add: andThen_def tryCatch_def getState_def modify_def send_def returnP_def enqueue_def mapSet_def mapDelete_def showNextMessageToAdmin_run presentation_def)
  apply (auto simp add: attempts_def attempt_def isSend_def reviewCall_def split: option.splits)
  done

lemma presentations_sends: "presentations l = filter hasButtons (map e_call (sends l))"
proof -
  have "\<And>e. hasButtons (e_call e) \<Longrightarrow> isSend e"
    by (auto simp: hasButtons_def isSend_def split: call.splits)
  then have "filter (\<lambda>e. hasButtons (e_call e)) (filter isSend l) = filter (\<lambda>e. hasButtons (e_call e)) l"
    by (induction l) auto
  then show ?thesis
    by (simp add: presentations_def sends_def filter_map comp_def)
qed

lemma presentations_append [simp]: "presentations (a @ b) = presentations a @ presentations b"
  by (simp add: presentations_def)

lemma presentations_nosends: "sends l = [] \<Longrightarrow> presentations l = []"
  by (simp add: presentations_sends)

lemma reviewCall_buttons: "reviewCall cfg m = Some c \<Longrightarrow> hasButtons c"
  by (auto simp: reviewCall_def hasButtons_def split: option.splits if_splits)

lemma presentations_attempts_review:
  "map Some (presentations (attempts net w (reviewCall cfg m))) =
     (case reviewCall cfg m of None \<Rightarrow> [] | Some c \<Rightarrow> [Some c])"
  by (auto simp: attempts_def presentations_def attempt_def reviewCall_buttons split: option.splits)

lemma presentations_Nil [simp]: "presentations [] = []"
  by (simp add: presentations_def)

lemma presentations_Cons [simp]:
  "presentations (e # l) = (if hasButtons (e_call e) then e_call e # presentations l else presentations l)"
  by (simp add: presentations_def)

lemma hasButtons_attempt [simp]: "hasButtons (e_call (attempt net w c)) = hasButtons c"
  by (simp add: attempt_def)

lemma hasButtons_simps [simp]:
  "hasButtons (SendMessage d t x) = (x = HtmlButtons)"
  "hasButtons (SendMedia k d f cap x) = (x = HtmlButtons)"
  "\<not> hasButtons (AnswerCbQuery a)"
  "\<not> hasButtons DeleteMessage"
  "\<not> hasButtons (EditMessageText t)"
  "\<not> hasButtons (Reply t)"
  "\<not> hasButtons (ReplyWithChoices t i)"
  by (simp_all add: hasButtons_def)

lemma channelCall_no_buttons: "channelCall cfg ch m = Some c \<Longrightarrow> \<not> hasButtons c"
  by (auto simp: channelCall_def hasButtons_def split: option.splits if_splits prod.splits)

lemma presentations_channelAttempt [simp]: "presentations (channelAttempt cfg net w m) = []"
  by (auto simp: channelAttempt_def attempts_def presentations_def attempt_def
      channelCall_no_buttons split: option.splits)

lemma presentations_afterPop:
  "presentations (afterPop cfg net (popHead s, l)) = [] \<or>
     (\<exists>m rest. tl (messageQueue s) = m # rest \<and>
        map Some (presentations (afterPop cfg net (popHead s, l))) = [reviewCall cfg m])"
proof (cases "tl (messageQueue s)")
  case Nil
  then show ?thesis by (simp add: afterPop_def popHead_def)
next
  case (Cons m rest)
  then have "afterPop cfg net (popHead s, l) = attempts net (popHead s, l) (reviewCall cfg m)"
    by (simp add: afterPop_def popHead_def)
  then show ?thesis
    using Cons presentations_attempts_review [of net "(popHead s, l)" cfg m]
    by (cases "reviewCall cfg m") (simp_all add: attempts_def)
qed

lemma outcomeOf_transition:
  "transition cfg s [] [] (presentations (snd (outcomeOf cfg net d s))) (fst (outcomeOf cfg net d s))"
proof -
  have pop: "\<And>l. transition cfg s [] [] (presentations (afterPop cfg net (popHead s, l))) (popHead s)"
    using presentations_afterPop by (intro transition.popped)
  show ?thesis
  proof (cases "messageQueue s")
    case Nil
    then show ?thesis
      by (simp add: outcomeOf_def pop transition.same)
  next
    case (Cons m q)
    then show ?thesis
      by (simp add: outcomeOf_def Let_def approvalNotice_def rejectionNotice_def pop
          transition.same)
  qed
qed

lemma getMediaData_run: "\<exists>r. getMediaData m w = (r, w)"
  by (simp add: getMediaData_def returnP_def throwP_def split: option.splits)

lemma handleUserMessage_transition:
  "\<exists>r s' ext K. handleUserMessage net ctx (s, []) = (r, (s', ext)) \<and> presentations ext = []
      \<and> set K \<subseteq> set (stagedKeys (Message ctx)) \<and> transition cfg s K [] [] s'"
proof (cases "ctx_from ctx")
  case None
  then show ?thesis
    by (simp add: handleUserMessage_def returnP_def)
       (intro exI [of _ "[]"], simp add: transition.same)
next
  case (Some user)
  show ?thesis
  proof (cases "ctx_message ctx")
    case None
    then show ?thesis using Some
      by (simp add: handleUserMessage_def returnP_def)
         (intro exI [of _ "[]"], simp add: transition.same)
  next
    case (Some message)
    obtain r where md: "getMediaData message (s, []) = (r, (s, []))"
      using getMediaData_run by blast
    show ?thesis
    proof (cases r)
      case (Thrown e)
      then show ?thesis using md Some \<open>ctx_from ctx = Some user\<close>
        by (simp add: handleUserMessage_def andThen_def)
           (intro exI [of _ "[]"], simp add: transition.same)
    next
      case (Ok x)
      let ?tk = "tempKeyOf (from_id user) (Some (message_id message))"
      let ?ck = "choiceKeyOf (Some (message_id message))"
      have keys: "stagedKeys (Message ctx) = [?tk, ?ck]"
        using Some \<open>ctx_from ctx = Some user\<close> by (simp add: stagedKeys_def)
      have 1: "\<And>v. set [?tk] \<subseteq> set (stagedKeys (Message ctx)) \<and>
                  transition cfg s [?tk] [] [] (mapSet ?tk v s)"
        by (simp add: keys transition.staged)
      have 2: "\<And>v v'. set [?tk, ?ck] \<subseteq> set (stagedKeys (Message ctx)) \<and>
                  transition cfg s [?tk, ?ck] [] [] (mapSet ?ck v' (mapSet ?tk v s))"
        by (simp add: keys transition.prompted)
      show ?thesis
      proof (cases "net 0 (ReplyWithChoices txt_choice_prompt (message_id message))")
        case True
        then show ?thesis using Ok md Some \<open>ctx_from ctx = Some user\<close>
          by (simp add: handleUserMessage_def andThen_def modify_def send_def Let_def attempt_def)
             (intro exI [of _ "[?tk, ?ck]"] 2)
      next
        case False
        then show ?thesis using Ok md Some \<open>ctx_from ctx = Some user\<close>
          by (simp add: handleUserMessage_def andThen_def modify_def send_def Let_def attempt_def)
             (intro exI [of _ "[?tk]"] 1)
      qed
    qed
  qed
qed

lemma step_userChoice:
  "cb_data ctx = Some d \<Longrightarrow> startsWith d ''user_choice:'' \<Longrightarrow>
   step cfg net (CallbackQuery ctx) s = snd (handleUserChoice cfg net ctx (s, []))"
  by (auto simp add: step_def dispatch_def andThen_def returnP_def startsWith_def
      split: prod.splits outcome.splits)

lemma resolved_None:
  "cb_data ctx = None \<or> cb_from ctx = None \<or> \<not> startsWith (the (cb_data ctx)) ''user_choice:'' \<Longrightarrow>
   resolved ctx s = None"
  by (auto simp: resolved_def split: option.splits)

lemma userChoice_transition:
  assumes "cb_data ctx = Some d" "cb_from ctx = Some user" "startsWith d ''user_choice:''"
    "currentMessageIndex s = 0"
  shows "\<exists>r s' ext. handleUserChoice cfg net ctx (s, []) = (r, (s', ext))
      \<and> transition cfg s [] (case resolved ctx s of Some fm \<Rightarrow> [fm] | None \<Rightarrow> [])
            (presentations ext) s'"
proof -
  let ?mid = "parseInt (nth_opt (split_colon d) 2)"
  let ?tk = "tempKeyOf (from_id user) ?mid"
  let ?choice = "nth_opt (split_colon d) 1"
  show ?thesis
  proof (cases "pendingMessages s ?tk")
    case None
    then have "resolved ctx s = None" using assms by (simp add: resolved_def)
    then show ?thesis
      using userChoice_notfound [OF assms(1,2,3) None, of cfg net "[]"]
      by (auto simp: transition.same)
  next
    case (Some tm)
    then have res: "resolved ctx s = finalOf ?choice tm" using assms by (simp add: resolved_def)
    show ?thesis
    proof (cases "finalOf ?choice tm")
      case (Some fm)
      obtain r ext where run: "handleUserChoice cfg net ctx (s, []) =
           (r, (enqueue fm ?tk (choiceKeyOf ?mid) s, ext))"
        and pr: "sends ext = [] \<or> (messageQueue s = [] \<and> (\<exists>c. reviewCall cfg fm = Some c \<and> map e_call (sends ext) = [c]))"
        using userChoice_resolved [OF assms(1,2,3) \<open>pendingMessages s ?tk = Some tm\<close> Some assms(4), of cfg net "[]"]
        by auto
      have "presentations ext = [] \<or> (messageQueue s = [] \<and> map Some (presentations ext) = [reviewCall cfg fm])"
        using pr by (auto simp: presentations_sends reviewCall_buttons)
      then have "transition cfg s [] [fm] (presentations ext) (enqueue fm ?tk (choiceKeyOf ?mid) s)"
        by (rule transition.queued)
      then show ?thesis using run res Some by auto
    next
      case None
      show ?thesis
      proof (cases "?choice = Some ''cancel''")
        case True
        obtain r ext where run: "handleUserChoice cfg net ctx (s, []) =
           (r, ((if net 0 (EditMessageText txt_cancelled)
                 then mapDelete (choiceKeyOf ?mid) (mapDelete ?tk s) else s), ext))"
          and "sends ext = []"
          using userChoice_cancel [OF assms(1,2,3) \<open>pendingMessages s ?tk = Some tm\<close> True, of cfg net "[]"]
          by auto
        then show ?thesis using res None
          by (auto simp: presentations_nosends intro: transition.same transition.cancelled)
      next
        case False
        obtain r ext where run: "handleUserChoice cfg net ctx (s, []) = (r, (s, ext))"
          and "sends ext = []"
          using userChoice_other [OF assms(1,2,3) \<open>pendingMessages s ?tk = Some tm\<close> False None, of cfg net "[]"]
          by auto
        then show ?thesis using res None
          by (auto simp: presentations_nosends intro: transition.same)
      qed
    qed
  qed
qed

lemma step_transition:
  assumes "currentMessageIndex s = 0"
  shows "\<exists>K. set K \<subseteq> set (stagedKeys u) \<and>
           transition cfg s K (arrivals1 u s) (presentations (snd (step cfg net u s)))
             (fst (step cfg net u s))"
proof (cases u)
  case (StartCommand ctx)
  then show ?thesis
    by (intro exI [of _ "[]"])
       (simp add: step_def dispatch_def handleStart_def send_def arrivals1_def transition.same)
next
  case (Message ctx)
  show ?thesis
  proof (cases "hasContent ctx")
    case True
    then show ?thesis
      using Message handleUserMessage_transition [of net ctx s cfg]
      by (auto simp add: step_def dispatch_def arrivals1_def)
  next
    case False
    then show ?thesis using Message
      by (intro exI [of _ "[]"])
         (simp add: step_def dispatch_def arrivals1_def returnP_def transition.same)
  qed
next
  case (CallbackQuery ctx)
  show ?thesis
  proof (cases "cb_data ctx = None \<or> cb_from ctx = None \<or> \<not> startsWith (the (cb_data ctx)) ''user_choice:''")
    case True
    note nx = userChoice_next [OF True] resolved_None [OF True]
    show ?thesis
    proof (cases "cb_data ctx = Some ''admin_approve'' \<or> cb_data ctx = Some ''admin_reject''
                  \<or> cb_data ctx = Some ''admin_skip''")
      case False
      then show ?thesis using CallbackQuery nx
        by (intro exI [of _ "[]"])
           (simp add: step_def dispatch_def andThen_def returnP_def arrivals1_def transition.same)
    next
      case tok: True
      then obtain d where d: "cb_data ctx = Some d"
        "d = ''admin_approve'' \<or> d = ''admin_reject'' \<or> d = ''admin_skip''" by auto
      show ?thesis
      proof (cases "authorized cfg ctx")
        case True
        obtain ext' where "step cfg net (CallbackQuery ctx) s
           = (fst (outcomeOf cfg net d s), snd (outcomeOf cfg net d s) @ ext')" "sends ext' = []"
          using decide_run [OF True d assms, of net] by blast
        then show ?thesis
          using CallbackQuery nx outcomeOf_transition [of cfg s net d]
          by (intro exI [of _ "[]"]) (simp add: arrivals1_def presentations_nosends)
      next
        case False
        then show ?thesis using CallbackQuery nx d
          by (intro exI [of _ "[]"])
             (simp add: step_admin [OF d(2,1)] handleAdminCallback_def send_def arrivals1_def
                transition.same)
      qed
    qed
  next
    case False
    then obtain d user where d: "cb_data ctx = Some d" "cb_from ctx = Some user"
      "startsWith d ''user_choice:''" by auto
    show ?thesis
      using CallbackQuery userChoice_transition [OF d assms, of cfg net]
      by (intro exI [of _ "[]"]) (auto simp add: step_userChoice [OF d(1,3)] arrivals1_def)
  qed
qed

lemma transition_index:
  "transition cfg s K new pres s' \<Longrightarrow> currentMessageIndex s' = currentMessageIndex s"
  by (induction rule: transition.induct)
     (simp_all add: mapSet_def mapDelete_def enqueue_def popHead_def)

lemma step_index: "currentMessageIndex s = 0 \<Longrightarrow> currentMessageIndex (fst (step cfg net u s)) = 0"
  using step_transition [where s = s and cfg = cfg and u = u and net = net] transition_index
  by auto

lemma reachable_index: "reachable cfg s \<Longrightarrow> currentMessageIndex s = 0"
  by (induction rule: reachable.induct) (simp_all add: initialState_def step_index)




lemma digit_char_cases: "d < 10 \<Longrightarrow> digit_char d \<in> set ''0123456789''"
  unfolding digit_char_def by (rule nth_mem) simp

lemma show_nat_digits: "set (show_nat n) \<subseteq> set ''0123456789''"
proof (induction n rule: show_nat.induct)
  case (1 n)
  show ?case
  proof (cases "n < 10")
    case True
    then show ?thesis using digit_char_cases [of n] by (subst show_nat.simps) simp
  next
    case False
    have "n mod 10 < 10" by simp
    then show ?thesis using False 1 digit_char_cases [of "n mod 10"]
      by (subst show_nat.simps) simp
  qed
qed




lemma zero_not_temp: "''0'' \<noteq> tempKeyOf uid mid" "''0'' \<noteq> choiceKeyOf mid"
  by (simp_all add: tempKeyOf_def choiceKeyOf_def)

lemma transition_inv0: "transition cfg s K new pres s' \<Longrightarrow> inv0 s \<Longrightarrow> inv0 s'"
  by (induction rule: transition.induct)
     (auto simp add: inv0_def mapSet_def mapDelete_def enqueue_def popHead_def zero_not_temp)

lemma reachable_inv0: "reachable cfg s \<Longrightarrow> inv0 s"
proof (induction rule: reachable.induct)
  case initial
  then show ?case by (simp add: inv0_def initialState_def)
next
  case (after s net u)
  then show ?case
    using step_transition [OF reachable_index [OF after.hyps], where cfg = cfg and u = u
        and net = net] transition_inv0
    by auto
qed

lemma popHead_empty: "inv0 s \<Longrightarrow> currentMessageIndex s = 0 \<Longrightarrow> messageQueue s = [] \<Longrightarrow> popHead s = s"
  by (cases s) (auto simp add: popHead_def inv0_def fun_upd_idem)
section \<open>Facts about the example inputs and the observers\<close>

lemmas ex_defs = ex_cfg_def ex_cfg_no_channel_def ex_net_def ex_user_def ex_alice_def ex_admin_def
  ex_submission_def ex_choice_def ex_decision_def ex_rec_def ex_record_def

lemmas run_defs = step_def dispatch_def hasContent_def handleUserMessage_def handleUserChoice_def
  getMediaData_def getMessageText_def getMessageType_def
  returnP_def throwP_def andThen_def tryCatch_def getState_def modify_def send_def attempt_def
  mapSet_def mapDelete_def tempKeyOf_def choiceKeyOf_def show_int_def show_num_def
  startsWith_def nth_opt_def parseInt_def is_ws_def parse_digits_def is_digit_def digit_val_def
  digits_value_def show_nat.simps digit_char_def Let_def initialState_def
  showNextMessageToAdmin_def sendMessageToAdmin_def sendToAdmin_def reviewCall_def truthy_def

lemma ex_stage_queue:
  "messageQueue (ex_stage cfg (ex_user n h) t) = []"
  "currentMessageIndex (ex_stage cfg (ex_user n h) t) = 0"
  by (simp_all add: ex_stage_def ex_defs run_defs)


lemma ex_queue_anonymous:
  "messageQueue (ex_queue cfg (ex_user n h) t ''anonymous'') = [ex_rec (ex_user n h) t Anonymous]"
  by (simp add: ex_queue_def ex_stage_def ex_defs run_defs)


lemma ex_queue_reachable: "reachable cfg (ex_queue cfg u t c)"
  unfolding ex_queue_def ex_stage_def by (intro reachable.after reachable.initial)


lemma ex_staged_queue: "messageQueue (ex_staged cfg) = []" "currentMessageIndex (ex_staged cfg) = 0"
  by (simp_all add: ex_staged_def ex_alice_def ex_stage_queue)


lemma ex_queued_queue: "messageQueue (ex_queued cfg) = [ex_record]"
  by (simp add: ex_queued_def ex_alice_def ex_queue_anonymous ex_record_def)

lemma ex_queued_reachable: "reachable cfg (ex_queued cfg)"
  unfolding ex_queued_def by (rule ex_queue_reachable)

lemma dest_isSend: "isSend e \<or> callDest (e_call e) = None"
  by (auto simp: callDest_def isSend_def split: call.splits)

lemma nosend_dest: "sends l = [] \<Longrightarrow> e \<in> set l \<Longrightarrow> callDest (e_call e) = None"
  using dest_isSend [of e] by (auto simp: sends_def filter_empty_conv)

lemma nosend_filters:
  assumes "sends l = []"
  shows "filter toUser (map e_call l) = []" "filter toChannel (map e_call l) = []"
    "filter toAdmin (map e_call l) = []"
  using nosend_dest [OF assms]
  by (auto simp: filter_empty_conv toUser_def toChannel_def toAdmin_def)

lemma callDest_simps [simp]:
  "callDest (SendMessage d t x) = Some d"
  "callDest (SendMedia k d f cap x) = Some d"
  "callDest (AnswerCbQuery a) = None"
  by (simp_all add: callDest_def)

lemma e_call_attempt [simp]: "e_call (attempt net w c) = c"
  by (simp add: attempt_def)

lemma e_queue_attempt [simp]: "e_queue (attempt net w c) = messageQueue (fst w)"
  by (simp add: attempt_def)

lemma e_ok_attempt [simp]: "e_ok (attempt net w c) = net (length (snd w)) c"
  by (simp add: attempt_def)

lemma reviewCall_dest: "reviewCall cfg m = Some c \<Longrightarrow> callDest c = Some (ToAdmin (adminId cfg))"
  by (auto simp: reviewCall_def split: option.splits if_splits)

lemma channelCall_dest: "channelCall cfg ch m = Some c \<Longrightarrow> callDest c = Some (ToChannel ch)"
  by (auto simp: channelCall_def split: option.splits if_splits prod.splits)

lemma afterPop_entries:
  "e \<in> set (afterPop cfg net (s, l)) \<Longrightarrow>
     e_queue e = messageQueue s \<and> callDest (e_call e) = Some (ToAdmin (adminId cfg))"
  by (auto simp: afterPop_def attempts_def reviewCall_dest split: list.splits option.splits)

lemma channelAttempt_entries:
  "e \<in> set (channelAttempt cfg net (s, l) m) \<Longrightarrow>
     e_queue e = messageQueue s \<and> callDest (e_call e) = Some (ToChannel (the (channelId cfg)))"
  by (auto simp: channelAttempt_def attempts_def channelCall_dest split: option.splits)

lemma afterPop_filters [simp]:
  "filter toUser (map e_call (afterPop cfg net w)) = []"
  "filter toChannel (map e_call (afterPop cfg net w)) = []"
  using afterPop_entries [of _ cfg net "fst w" "snd w"]
  by (auto simp: filter_empty_conv toUser_def toChannel_def)

lemma channelAttempt_filters [simp]:
  "filter toUser (map e_call (channelAttempt cfg net w m)) = []"
  "filter toChannel (map e_call (channelAttempt cfg net w m)) = map e_call (channelAttempt cfg net w m)"
  using channelAttempt_entries [of _ cfg net "fst w" "snd w" m]
  by (auto simp: filter_empty_conv filter_id_conv toUser_def toChannel_def)

lemma notice_simps [simp]:
  "toUser (approvalNotice m)" "toUser (rejectionNotice m)"
  "\<not> toChannel (approvalNotice m)" "\<not> toChannel (rejectionNotice m)"
  "\<not> toAdmin (approvalNotice m)" "\<not> toAdmin (rejectionNotice m)"
  "\<not> toUser (AnswerCbQuery a)" "\<not> toChannel (AnswerCbQuery a)" "\<not> toAdmin (AnswerCbQuery a)"
  by (simp_all add: approvalNotice_def rejectionNotice_def toUser_def toChannel_def toAdmin_def)

section \<open>Decisions on a non-empty queue\<close>

lemma popHead_queue [simp]: "messageQueue (popHead s) = tl (messageQueue s)"
  by (simp add: popHead_def)

lemma decide_head:
  assumes "reachable cfg s" and "authorized cfg ctx" and "cb_data ctx = Some d"
    and "d = ''admin_approve'' \<or> d = ''admin_reject'' \<or> d = ''admin_skip''"
  obtains ext' where "step cfg net (CallbackQuery ctx) s
      = (fst (outcomeOf cfg net d s), snd (outcomeOf cfg net d s) @ ext')" and "sends ext' = []"
  using decide_run [OF assms(2,3,4) reachable_index [OF assms(1)], of net] by blast

lemma channelOk_Some:
  "channelCall cfg (the (channelId cfg)) m = Some c \<Longrightarrow>
   channelOk cfg net (s, []) m = (truthy (channelId cfg) \<and> net 0 c)"
  by (simp add: channelOk_def channelAttempt_def attempts_def)

lemma channelAttempt_Some:
  "channelCall cfg (the (channelId cfg)) m = Some c \<Longrightarrow>
   map e_call (channelAttempt cfg net w m) = [c]"
  by (simp add: channelAttempt_def attempts_def)

lemma channelCall_to:
  "channelCall cfg ch m = Some c \<Longrightarrow> toChannel c \<and> \<not> toUser c \<and> \<not> toAdmin c"
  using channelCall_dest [of cfg ch m c] by (simp add: toChannel_def toUser_def toAdmin_def)

lemmas decide_defs = step_def dispatch_def handleUserChoice_def handleAdminCallback_def
  authorized_def handleApprove_def handleReject_def handleSkip_def publishToChannel_def
  notifyUser_def moveToNextMessage_def showNextMessageToAdmin_def sendMessageToAdmin_def
  sendToAdmin_def startsWith_def nth_opt_def truthy_def
  returnP_def throwP_def andThen_def tryCatch_def getState_def modify_def send_def attempt_def

lemma outcome_entries:
  assumes "messageQueue s = m # q" and "e \<in> set (snd (outcomeOf cfg net d s))"
  shows "(toAdmin (e_call e) \<and> \<not> toUser (e_call e) \<and> \<not> toChannel (e_call e) \<and> e_queue e = q)
       \<or> (\<not> toAdmin (e_call e) \<and> e_queue e = m # q)"
proof -
  have pop: "toAdmin (e_call e) \<and> \<not> toUser (e_call e) \<and> \<not> toChannel (e_call e) \<and> e_queue e = q"
    if "e \<in> set (afterPop cfg net (popHead s, l))" for l
    using afterPop_entries [OF that] assms(1) by (simp add: toAdmin_def toUser_def toChannel_def)
  have chan: "\<not> toAdmin (e_call e) \<and> e_queue e = m # q"
    if "e \<in> set (channelAttempt cfg net (s, l) m)" for l
    using channelAttempt_entries [OF that] assms(1) by (simp add: toAdmin_def)
  show ?thesis
    using assms pop chan
    by (auto simp add: outcomeOf_def Let_def split: if_splits)
qed

section \<open>What is posted to the channel\<close>

lemma replaceAll_append [simp]: "replaceAll c r (a @ b) = replaceAll c r a @ replaceAll c r b"
  by (simp add: replaceAll_def)


lemma escapeHTML_Nil [simp]: "escapeHTML [] = []"
  by (simp add: escapeHTML_def replaceAll_def)



lemma escaped_signature: "escapeHTML (signature cfg) \<noteq> signature cfg"
  by (simp add: signature_def sig_prefix_def escapeHTML_def replaceAll_def)




lemma approve_channel_calls:
  assumes "reachable cfg s" and "messageQueue s = m # q" and "authorized cfg ctx"
    and "cb_data ctx = Some ''admin_approve''" and "truthy (channelId cfg)"
    and "channelCall cfg (the (channelId cfg)) m = Some c"
  shows "filter toChannel (map e_call (snd (step cfg net (CallbackQuery ctx) s))) = [c]"
proof -
  obtain ext' where st: "step cfg net (CallbackQuery ctx) s
      = (fst (outcomeOf cfg net ''admin_approve'' s),
         snd (outcomeOf cfg net ''admin_approve'' s) @ ext')" and ns: "sends ext' = []"
    using decide_head [OF assms(1,3,4)] by auto
  show ?thesis
    using assms(2,5) nosend_filters [OF ns] channelCall_to [OF assms(6)]
    by (simp add: st outcomeOf_def Let_def channelAttempt_Some [OF assms(6)])
qed

lemma includesStr_Nil [simp]: "includesStr s []"
  by (cases s) (simp_all add: startsWith_def)



lemma startsWith_prefix: "startsWith s p = prefix p s"
proof
  assume "startsWith s p"
  then have "s = p @ drop (length p) s"
    unfolding startsWith_def by (metis append_take_drop_id)
  then show "prefix p s" by (metis prefixI)
next
  assume "prefix p s"
  then show "startsWith s p" by (auto simp: startsWith_def prefix_def)
qed

lemma includesStr_sublist: "includesStr s p = sublist p s"
  by (induction s) (simp_all add: startsWith_prefix sublist_Cons_right)

lemma ex_channelCall:
  "channelCall ex_cfg (the (channelId ex_cfg)) (ex_rec (ex_user n h) t Anonymous)
     = (if t = [] then None
        else Some (SendMessage (ToChannel ''@chan'') (escapeHTML (t @ signature ex_cfg)) Html))"
  "channelCall ex_cfg (the (channelId ex_cfg)) (ex_rec (ex_user n None) t With_name)
     = (if t = [] then None
        else Some (SendMessage (ToChannel ''@chan'')
               (escapeHTML (author_prefix @ n @ [CHR 0x0A, CHR 0x0A] @ t @ signature ex_cfg)) Html))"
  by (simp_all add: ex_defs channelCall_def withSignature_def composed_def truthy_def authorInfo_def)

lemma ex_auth: "authorized ex_cfg (ex_decision ex_admin d)" "cb_data (ex_decision ex_admin d) = Some d"
  "truthy (channelId ex_cfg)"
  by (simp_all add: authorized_def ex_defs truthy_def)

lemma ex_approve_state:
  "\<exists>ext'. step ex_cfg net (CallbackQuery (ex_decision ex_admin ''admin_approve'')) (ex_queued ex_cfg)
      = (fst (outcomeOf ex_cfg net ''admin_approve'' (ex_queued ex_cfg)),
         snd (outcomeOf ex_cfg net ''admin_approve'' (ex_queued ex_cfg)) @ ext')"
  using decide_head [OF ex_queued_reachable ex_auth(1,2), of "''admin_approve''" net] by auto

lemma ex_approve_call:
  "channelCall ex_cfg (the (channelId ex_cfg)) ex_record
     = Some (SendMessage (ToChannel ''@chan'') (escapeHTML (''Hello'' @ signature ex_cfg)) Html)"
  unfolding ex_record_def ex_alice_def by (simp add: ex_channelCall)

lemma ex_approve_first:
  "\<exists>rest. snd (step ex_cfg net (CallbackQuery (ex_decision ex_admin ''admin_approve''))
             (ex_queued ex_cfg))
      = \<lparr> e_queue = [ex_record],
          e_call = SendMessage (ToChannel ''@chan'') (escapeHTML (''Hello'' @ signature ex_cfg)) Html,
          e_ok = net 0 (SendMessage (ToChannel ''@chan'')
                          (escapeHTML (''Hello'' @ signature ex_cfg)) Html) \<rparr> # rest"
proof -
  obtain ext' where st: "step ex_cfg net (CallbackQuery (ex_decision ex_admin ''admin_approve''))
        (ex_queued ex_cfg)
      = (fst (outcomeOf ex_cfg net ''admin_approve'' (ex_queued ex_cfg)),
         snd (outcomeOf ex_cfg net ''admin_approve'' (ex_queued ex_cfg)) @ ext')"
    using ex_approve_state by blast
  show ?thesis
    using ex_auth(3)
    by (simp add: st outcomeOf_def ex_queued_queue Let_def channelAttempt_def attempts_def
        ex_approve_call attempt_def)
qed

lemma ex_approve_queue:
  "messageQueue (fst (step ex_cfg ex_net (CallbackQuery (ex_decision ex_admin ''admin_approve''))
     (ex_queued ex_cfg))) = []"
proof -
  obtain ext' where st: "step ex_cfg ex_net (CallbackQuery (ex_decision ex_admin ''admin_approve''))
        (ex_queued ex_cfg)
      = (fst (outcomeOf ex_cfg ex_net ''admin_approve'' (ex_queued ex_cfg)),
         snd (outcomeOf ex_cfg ex_net ''admin_approve'' (ex_queued ex_cfg)) @ ext')"
    using ex_approve_state by blast
  have ok: "channelOk ex_cfg ex_net (ex_queued ex_cfg, []) ex_record"
    using ex_auth(3) by (simp add: channelOk_Some [OF ex_approve_call]) (simp add: ex_net_def)
  show ?thesis
    using ex_auth(3) ok by (simp add: st outcomeOf_def ex_queued_queue Let_def)
qed

lemma ex_approve_to:
  "toChannel (SendMessage (ToChannel ''@chan'') (escapeHTML (''Hello'' @ signature ex_cfg)) Html)"
  by (simp add: toChannel_def)

section \<open>The order of the queue\<close>







section \<open>Keys of the staging map\<close>




lemma show_nat_no_sep: "CHR ''_'' \<notin> set (show_nat n)" "CHR ''-'' \<notin> set (show_nat n)"
  "CHR ''N'' \<notin> set (show_nat n)" "CHR '':'' \<notin> set (show_nat n)"
  using show_nat_digits [of n] by auto

lemma show_int_no_sep: "CHR ''_'' \<notin> set (show_int i)" "CHR ''N'' \<notin> set (show_int i)"
  by (simp_all add: show_int_def show_nat_no_sep)



lemma show_num_no_sep: "CHR ''_'' \<notin> set (show_num x)"
  by (cases x) (simp_all add: show_num_def show_int_no_sep)






section \<open>Resolving a staged submission\<close>










section \<open>Entries stored under a queue position\<close>







lemma split_colon_plain: "CHR '':'' \<notin> set x \<Longrightarrow> split_colon x = [x]"
  by (induction x) auto

lemma split_choice:
  "split_colon (''user_choice:anonymous:'' @ show_nat k) = [''user_choice'', ''anonymous'', show_nat k]"
  using split_colon_plain [OF show_nat_no_sep(4), of k] by simp
















section \<open>The claims\<close>

text \<open>
  C8. A reviewer action token (\<open>admin_approve\<close>, \<open>admin_reject\<close>, \<open>admin_skip\<close>) from any
  identity other than the designated reviewer is refused: the only call made is the answer
  "you have no rights for this action", and the state (queue, staging map, index) is
  unchanged, so nothing is posted to the channel and no submitter is notified.
\<close>

theorem non_reviewer_is_refused:
  assumes "\<not> authorized cfg ctx" and "cb_data ctx = Some d"
    and "d = ''admin_approve'' \<or> d = ''admin_reject'' \<or> d = ''admin_skip''"
  shows "fst (step cfg net (CallbackQuery ctx) s) = s \<and>
         map e_call (snd (step cfg net (CallbackQuery ctx) s))
           = [AnswerCbQuery (Some txt_no_rights)]"
  using assms by (simp add: step_admin [OF assms(3,2)] handleAdminCallback_def send_def)

theorem non_reviewer_is_refused_witness:
  "\<not> authorized ex_cfg (ex_decision ex_alice ''admin_approve'') \<and>
   fst (step ex_cfg ex_net (CallbackQuery (ex_decision ex_alice ''admin_approve'')) (ex_queued ex_cfg))
     = ex_queued ex_cfg \<and>
   map e_call
     (snd (step ex_cfg ex_net (CallbackQuery (ex_decision ex_alice ''admin_approve'')) (ex_queued ex_cfg)))
     = [AnswerCbQuery (Some txt_no_rights)]"
  using non_reviewer_is_refused [of ex_cfg "ex_decision ex_alice ''admin_approve''"
      "''admin_approve''" ex_net "ex_queued ex_cfg"]
  by (simp add: authorized_def ex_defs)

text \<open>
  C7. In every reachable state the current-message index is 0, so the record that the
  decision handlers read, \<open>messageQueue[currentMessageIndex]\<close>, is the front of the queue
  (and there is none exactly when the queue is empty): at most one record, the head, is
  under review.
\<close>

theorem decisions_read_the_head:
  assumes "reachable cfg s"
  shows "currentMessageIndex s = 0 \<and>
         nth_opt (messageQueue s) (currentMessageIndex s)
           = (case messageQueue s of [] \<Rightarrow> None | m # q \<Rightarrow> Some m)"
  using reachable_index [OF assms] by (simp add: nth_opt_0)

theorem decisions_read_the_head_witness:
  "reachable ex_cfg (ex_queued ex_cfg) \<and> currentMessageIndex (ex_queued ex_cfg) = 0 \<and>
   nth_opt (messageQueue (ex_queued ex_cfg)) (currentMessageIndex (ex_queued ex_cfg)) = Some ex_record"
  using decisions_read_the_head [of ex_cfg "ex_queued ex_cfg"] ex_queued_reachable [of ex_cfg]
  by (simp add: ex_queued_queue nth_opt_def)

text \<open>
  C2. A decision of the reviewer that arrives when the queue is empty changes nothing: the
  state after it is the state before it (queue, staging map and index), and no message goes
  to a submitter or to the channel.  The reviewer is told that there is nothing to review
  by the first call of the handler: for publish and reject the callback is answered
  "message not found" (lines 377 and 403), for skip the reviewer is sent "all messages
  are processed" (line 427).
\<close>

theorem no_head_is_noop:
  assumes "reachable cfg s" and "messageQueue s = []" and "authorized cfg ctx"
    and "cb_data ctx = Some d"
    and "d = ''admin_approve'' \<or> d = ''admin_reject'' \<or> d = ''admin_skip''"
  shows "fst (step cfg net (CallbackQuery ctx) s) = s \<and>
         filter toUser (map e_call (snd (step cfg net (CallbackQuery ctx) s))) = [] \<and>
         filter toChannel (map e_call (snd (step cfg net (CallbackQuery ctx) s))) = [] \<and>
         map e_call (take 1 (snd (step cfg net (CallbackQuery ctx) s)))
           = [if d = ''admin_skip'' then SendMessage (ToAdmin (adminId cfg)) txt_all_done Plain
              else AnswerCbQuery (Some txt_message_not_found)]"
proof -
  have idx: "currentMessageIndex s = 0" using assms(1) by (rule reachable_index)
  have pop: "popHead s = s" using popHead_empty [OF reachable_inv0 [OF assms(1)] idx assms(2)] .
  obtain ext' where st: "step cfg net (CallbackQuery ctx) s
      = (fst (outcomeOf cfg net d s), snd (outcomeOf cfg net d s) @ ext')" and ns: "sends ext' = []"
    using decide_run [OF assms(3,4,5) idx, of net] by blast
  have out: "outcomeOf cfg net d s =
      (s, [attempt net (s, []) (if d = ''admin_skip''
             then SendMessage (ToAdmin (adminId cfg)) txt_all_done Plain
             else AnswerCbQuery (Some txt_message_not_found))])"
    using assms(2) pop by (simp add: outcomeOf_def afterPop_def)
  show ?thesis
    using nosend_filters [OF ns] by (simp add: st out toUser_def toChannel_def)
qed

theorem no_head_is_noop_witness:
  "reachable ex_cfg initialState \<and> messageQueue initialState = [] \<and>
   authorized ex_cfg (ex_decision ex_admin ''admin_skip'') \<and>
   fst (step ex_cfg ex_net (CallbackQuery (ex_decision ex_admin ''admin_skip'')) initialState)
     = initialState \<and>
   map e_call (take 1
     (snd (step ex_cfg ex_net (CallbackQuery (ex_decision ex_admin ''admin_skip'')) initialState)))
     = [SendMessage (ToAdmin (Some 1)) txt_all_done Plain]"
  using no_head_is_noop [of ex_cfg initialState "ex_decision ex_admin ''admin_skip''"
      "''admin_skip''" ex_net] reachable.initial [of ex_cfg]
  by (simp add: authorized_def ex_defs initialState_def)

text \<open>
  C4, as amended.  In a reachable state with a non-empty queue, for a decision of the
  reviewer: skip removes the head and sends nothing to the submitter; reject removes the
  head and sends the submitter exactly the rejection notice; publish, when the channel is
  configured, the head has media or a non-empty text (so that there is a call \<open>c\<close> to the
  channel) and that call succeeds, removes the head, sends the submitter exactly the
  approval notice and makes exactly one call to the channel; publish, when the channel is
  not configured or the call to the channel fails, leaves the head in the queue and sends
  the submitter nothing.
\<close>

theorem decisions_on_the_head:
  assumes "reachable cfg s" and "messageQueue s = m # q" and "authorized cfg ctx"
    and "cb_data ctx = Some d"
    and "d = ''admin_approve'' \<or> d = ''admin_reject'' \<or> d = ''admin_skip''"
  shows "(d = ''admin_skip'' \<longrightarrow>
            messageQueue (fst (step cfg net (CallbackQuery ctx) s)) = q \<and>
            filter toUser (map e_call (snd (step cfg net (CallbackQuery ctx) s))) = []) \<and>
         (d = ''admin_reject'' \<longrightarrow>
            messageQueue (fst (step cfg net (CallbackQuery ctx) s)) = q \<and>
            filter toUser (map e_call (snd (step cfg net (CallbackQuery ctx) s)))
              = [rejectionNotice m]) \<and>
         (d = ''admin_approve'' \<and> truthy (channelId cfg)
            \<and> channelCall cfg (the (channelId cfg)) m = Some c \<and> net 0 c \<longrightarrow>
            messageQueue (fst (step cfg net (CallbackQuery ctx) s)) = q \<and>
            filter toUser (map e_call (snd (step cfg net (CallbackQuery ctx) s)))
              = [approvalNotice m] \<and>
            filter toChannel (map e_call (snd (step cfg net (CallbackQuery ctx) s))) = [c]) \<and>
         (d = ''admin_approve'' \<and> (\<not> truthy (channelId cfg) \<or>
              (channelCall cfg (the (channelId cfg)) m = Some c \<and> \<not> net 0 c)) \<longrightarrow>
            messageQueue (fst (step cfg net (CallbackQuery ctx) s)) = m # q \<and>
            filter toUser (map e_call (snd (step cfg net (CallbackQuery ctx) s))) = [])"
proof -
  obtain ext' where st: "step cfg net (CallbackQuery ctx) s
      = (fst (outcomeOf cfg net d s), snd (outcomeOf cfg net d s) @ ext')" and ns: "sends ext' = []"
    using decide_head [OF assms(1,3,4,5)] by blast
  note f = nosend_filters [OF ns]
  let ?r = "step cfg net (CallbackQuery ctx) s"
  have c1: "d = ''admin_skip'' \<longrightarrow>
            messageQueue (fst ?r) = q \<and> filter toUser (map e_call (snd ?r)) = []"
    using assms(2) f by (simp add: st outcomeOf_def)
  have c2: "d = ''admin_reject'' \<longrightarrow>
            messageQueue (fst ?r) = q \<and> filter toUser (map e_call (snd ?r)) = [rejectionNotice m]"
    using assms(2) f by (simp add: st outcomeOf_def Let_def)
  have c3: "d = ''admin_approve'' \<and> truthy (channelId cfg)
            \<and> channelCall cfg (the (channelId cfg)) m = Some c \<and> net 0 c \<longrightarrow>
            messageQueue (fst ?r) = q \<and>
            filter toUser (map e_call (snd ?r)) = [approvalNotice m] \<and>
            filter toChannel (map e_call (snd ?r)) = [c]"
  proof (intro impI, elim conjE)
    assume a: "d = ''admin_approve''" "truthy (channelId cfg)"
      "channelCall cfg (the (channelId cfg)) m = Some c" "net 0 c"
    show "messageQueue (fst ?r) = q \<and>
          filter toUser (map e_call (snd ?r)) = [approvalNotice m] \<and>
          filter toChannel (map e_call (snd ?r)) = [c]"
      using assms(2) f a channelCall_to [OF a(3)]
      by (simp add: st outcomeOf_def Let_def channelOk_Some channelAttempt_Some)
  qed
  have c4: "d = ''admin_approve'' \<and> (\<not> truthy (channelId cfg) \<or>
              (channelCall cfg (the (channelId cfg)) m = Some c \<and> \<not> net 0 c)) \<longrightarrow>
            messageQueue (fst ?r) = m # q \<and> filter toUser (map e_call (snd ?r)) = []"
  proof (intro impI, elim conjE)
    assume a: "d = ''admin_approve''"
      "\<not> truthy (channelId cfg) \<or> (channelCall cfg (the (channelId cfg)) m = Some c \<and> \<not> net 0 c)"
    show "messageQueue (fst ?r) = m # q \<and> filter toUser (map e_call (snd ?r)) = []"
    proof (cases "truthy (channelId cfg)")
      case False
      then show ?thesis using assms(2) f a(1) by (simp add: st outcomeOf_def)
    next
      case True
      then have c: "channelCall cfg (the (channelId cfg)) m = Some c" "\<not> net 0 c"
        using a(2) by auto
      show ?thesis using assms(2) f a(1) True c(2)
        by (simp add: st outcomeOf_def channelOk_Some [OF c(1)])
    qed
  qed
  show ?thesis by (intro conjI c1 c2 c3 c4)
qed

theorem decisions_on_the_head_witness:
  "reachable ex_cfg (ex_queued ex_cfg) \<and> messageQueue (ex_queued ex_cfg) = [ex_record] \<and>
   authorized ex_cfg (ex_decision ex_admin ''admin_approve'') \<and>
   messageQueue (fst (step ex_cfg ex_net (CallbackQuery (ex_decision ex_admin ''admin_approve''))
     (ex_queued ex_cfg))) = [] \<and>
   filter toUser (map e_call (snd (step ex_cfg ex_net
     (CallbackQuery (ex_decision ex_admin ''admin_approve'')) (ex_queued ex_cfg))))
     = [approvalNotice ex_record] \<and>
   filter toChannel (map e_call (snd (step ex_cfg ex_net
     (CallbackQuery (ex_decision ex_admin ''admin_approve'')) (ex_queued ex_cfg))))
     = [SendMessage (ToChannel ''@chan'') (escapeHTML (''Hello'' @ signature ex_cfg)) Html]"
  using decisions_on_the_head [of ex_cfg "ex_queued ex_cfg" ex_record "[]"
      "ex_decision ex_admin ''admin_approve''" "''admin_approve''" ex_net
      "SendMessage (ToChannel ''@chan'') (escapeHTML (''Hello'' @ signature ex_cfg)) Html"]
    ex_queued_reachable [of ex_cfg] ex_queued_queue [of ex_cfg]
  by (simp add: authorized_def ex_defs channelCall_def withSignature_def composed_def truthy_def)

text \<open>
  C4 as stated fails: without \<open>CHANNEL_ID\<close> (the guard of lines 437 to 439) publish
  neither removes the head nor notifies the submitter nor posts; the reviewer only gets
  the answer "an error occurred".
\<close>

theorem publish_without_channel_counterexample:
  "reachable ex_cfg_no_channel (ex_queued ex_cfg_no_channel) \<and>
   messageQueue (ex_queued ex_cfg_no_channel) = [ex_record] \<and>
   authorized ex_cfg_no_channel (ex_decision ex_admin ''admin_approve'') \<and>
   messageQueue (fst (step ex_cfg_no_channel ex_net
     (CallbackQuery (ex_decision ex_admin ''admin_approve'')) (ex_queued ex_cfg_no_channel)))
     = [ex_record] \<and>
   map e_call (snd (step ex_cfg_no_channel ex_net
     (CallbackQuery (ex_decision ex_admin ''admin_approve'')) (ex_queued ex_cfg_no_channel)))
     = [AnswerCbQuery (Some txt_error)]"
proof -
  have "currentMessageIndex (ex_queued ex_cfg_no_channel) = 0"
    using reachable_index [OF ex_queued_reachable] .
  then show ?thesis
    using ex_queued_reachable [of ex_cfg_no_channel] ex_queued_queue [of ex_cfg_no_channel]
    by (simp add: decide_defs ex_cfg_no_channel_def ex_cfg_def ex_decision_def ex_admin_def
        ex_net_def)
qed

text \<open>
  C3, as amended.  In a reachable state with a non-empty queue, every message that a
  decision sends to the channel or to the submitter is sent while the decided record is
  still the head of the queue, and every message it sends to the reviewer (the next head,
  or "all messages are processed") is sent after the head has been removed.  So the head
  is removed after the publication and the notification, and before the next head is
  presented; skip, which publishes and notifies nothing, removes the head before it
  sends anything.
\<close>

theorem head_removed_after_publication:
  assumes "reachable cfg s" and "messageQueue s = m # q" and "authorized cfg ctx"
    and "cb_data ctx = Some d"
    and "d = ''admin_approve'' \<or> d = ''admin_reject'' \<or> d = ''admin_skip''"
  shows "\<forall>e \<in> set (snd (step cfg net (CallbackQuery ctx) s)).
           (toChannel (e_call e) \<or> toUser (e_call e) \<longrightarrow> e_queue e = m # q) \<and>
           (toAdmin (e_call e) \<longrightarrow> e_queue e = q)"
proof
  fix e assume e: "e \<in> set (snd (step cfg net (CallbackQuery ctx) s))"
  obtain ext' where st: "step cfg net (CallbackQuery ctx) s
      = (fst (outcomeOf cfg net d s), snd (outcomeOf cfg net d s) @ ext')" and ns: "sends ext' = []"
    using decide_head [OF assms(1,3,4,5)] by blast
  from e st have "e \<in> set (snd (outcomeOf cfg net d s)) \<or> e \<in> set ext'" by auto
  then show "(toChannel (e_call e) \<or> toUser (e_call e) \<longrightarrow> e_queue e = m # q) \<and>
             (toAdmin (e_call e) \<longrightarrow> e_queue e = q)"
  proof
    assume "e \<in> set (snd (outcomeOf cfg net d s))"
    from outcome_entries [OF assms(2) this] show ?thesis by auto
  next
    assume "e \<in> set ext'"
    from nosend_dest [OF ns this] show ?thesis
      by (simp add: toChannel_def toUser_def toAdmin_def)
  qed
qed

theorem head_removed_after_publication_witness:
  "reachable ex_cfg (ex_queued ex_cfg) \<and> messageQueue (ex_queued ex_cfg) = [ex_record] \<and>
   authorized ex_cfg (ex_decision ex_admin ''admin_approve'') \<and>
   hd (snd (step ex_cfg ex_net (CallbackQuery (ex_decision ex_admin ''admin_approve''))
     (ex_queued ex_cfg)))
     \<in> set (snd (step ex_cfg ex_net (CallbackQuery (ex_decision ex_admin ''admin_approve''))
         (ex_queued ex_cfg))) \<and>
   toChannel (e_call (hd (snd (step ex_cfg ex_net
     (CallbackQuery (ex_decision ex_admin ''admin_approve'')) (ex_queued ex_cfg))))) \<and>
   e_queue (hd (snd (step ex_cfg ex_net
     (CallbackQuery (ex_decision ex_admin ''admin_approve'')) (ex_queued ex_cfg)))) = [ex_record]"
proof -
  let ?log = "snd (step ex_cfg ex_net (CallbackQuery (ex_decision ex_admin ''admin_approve''))
                (ex_queued ex_cfg))"
  have first: "hd ?log \<in> set ?log" "toChannel (e_call (hd ?log))"
    using ex_approve_first [of ex_net] ex_approve_to by auto
  have "\<forall>e \<in> set ?log.
          (toChannel (e_call e) \<or> toUser (e_call e) \<longrightarrow> e_queue e = [ex_record]) \<and>
          (toAdmin (e_call e) \<longrightarrow> e_queue e = [])"
    using head_removed_after_publication [OF ex_queued_reachable ex_queued_queue ex_auth(1,2),
        of "''admin_approve''" ex_net]
    by simp
  then have "e_queue (hd ?log) = [ex_record]"
    using first by blast
  then show ?thesis
    using first ex_queued_reachable [of ex_cfg] ex_queued_queue [of ex_cfg] ex_auth(1)
    by simp
qed

text \<open>
  C3 as stated fails: on publish the first call of the handler is the post to the channel,
  and it is made while the decided record is still in the queue; the record is removed
  only afterwards.
\<close>

theorem publish_before_removal_counterexample:
  "reachable ex_cfg (ex_queued ex_cfg) \<and> messageQueue (ex_queued ex_cfg) = [ex_record] \<and>
   authorized ex_cfg (ex_decision ex_admin ''admin_approve'') \<and>
   toChannel (e_call (hd (snd (step ex_cfg ex_net
     (CallbackQuery (ex_decision ex_admin ''admin_approve'')) (ex_queued ex_cfg))))) \<and>
   e_queue (hd (snd (step ex_cfg ex_net
     (CallbackQuery (ex_decision ex_admin ''admin_approve'')) (ex_queued ex_cfg)))) = [ex_record] \<and>
   messageQueue (fst (step ex_cfg ex_net
     (CallbackQuery (ex_decision ex_admin ''admin_approve'')) (ex_queued ex_cfg))) = []"
  using ex_approve_first [of ex_net] ex_approve_to ex_approve_queue
    ex_queued_reachable [of ex_cfg] ex_queued_queue [of ex_cfg] ex_auth(1) [of "''admin_approve''"]
  by auto

text \<open>
  C1.  The code escapes the signature as well: it appends the signature to the composed
  text (lines 471 to 475) and escapes the result (lines 488 and 508).  When the reviewer
  publishes the anonymous text "Hello", the body posted is the first string below, in
  which the link of the signature is escaped; the body the claim describes is the second.
  In general the body is the escaped user part followed by the escaped signature (lemma
  \<open>channel_content\<close>), and the escaped signature is never the signature (lemma
  \<open>escaped_signature\<close>).
\<close>

theorem signature_is_escaped:
  "filter toChannel (map e_call (snd (step ex_cfg ex_net
     (CallbackQuery (ex_decision ex_admin ''admin_approve'')) (ex_queued ex_cfg))))
     = [SendMessage (ToChannel ''@chan'')
          (''Hello'' @ [CHR 0x0A, CHR 0x0A] @ ''&lt;a href='' @ [CHR 0x22] @ ''https://t.me/bot''
             @ [CHR 0x22] @ ''&gt;'' @ sig_label @ ''&lt;/a&gt;'') Html] \<and>
   escapeHTML ''Hello'' @ signature ex_cfg
     = ''Hello'' @ [CHR 0x0A, CHR 0x0A] @ ''<a href='' @ [CHR 0x22] @ ''https://t.me/bot''
         @ [CHR 0x22] @ ''>'' @ sig_label @ ''</a>''"
proof -
  have c: "channelCall ex_cfg (the (channelId ex_cfg)) ex_record
      = Some (SendMessage (ToChannel ''@chan'') (escapeHTML (''Hello'' @ signature ex_cfg)) Html)"
    unfolding ex_record_def ex_alice_def by (simp add: ex_channelCall)
  have e: "escapeHTML (''Hello'' @ signature ex_cfg)
      = ''Hello'' @ [CHR 0x0A, CHR 0x0A] @ ''&lt;a href='' @ [CHR 0x22] @ ''https://t.me/bot''
          @ [CHR 0x22] @ ''&gt;'' @ sig_label @ ''&lt;/a&gt;''"
    by (simp add: escapeHTML_def replaceAll_def signature_def sig_prefix_def sig_suffix_def
        sig_label_def ex_cfg_def)
  have s: "escapeHTML ''Hello'' @ signature ex_cfg
      = ''Hello'' @ [CHR 0x0A, CHR 0x0A] @ ''<a href='' @ [CHR 0x22] @ ''https://t.me/bot''
          @ [CHR 0x22] @ ''>'' @ sig_label @ ''</a>''"
    by (simp add: escapeHTML_def replaceAll_def signature_def sig_prefix_def sig_suffix_def
        ex_cfg_def)
  show ?thesis
    using approve_channel_calls [OF ex_queued_reachable ex_queued_queue ex_auth c, of ex_net]
    by (simp only: e s)
qed









section \<open>C10: index-keyed entries are never deleted\<close>



end
